theory Spec2Isabelle
  imports Complex_Main "HOL-Library.Word"
begin

unbundle bit_operations_syntax

section \<open>Texture compression: \<^verbatim>\<open>lib/compressTextures.js\<close>\<close>

subsection \<open>Values, errors and the host\<close>

type_synonym int32 = "32 word"
type_synonym byte = "8 word"
type_synonym path = string

text \<open>
  The errors that the two modules throw or reject with. \<open>DeveloperError\<close> and
  \<open>CesiumRuntimeError\<close> are the error classes of Cesium; \<open>TypeError\<close> and \<open>RangeError\<close> are raised by
  the JavaScript engine itself; \<open>Rejection\<close> is a promise rejected with a plain string (as
  \<open>createProcess\<close> does); \<open>SystemError\<close> is an error of the operating system (a failed
  spawn, read, write or directory operation).
\<close>

datatype error =
    DeveloperError string
  | CesiumRuntimeError string
  | TypeError string
  | RangeError string
  | Rejection string
  | SystemError string

text \<open>
  What the module reads from its host: \<open>os.tmpdir()\<close>, the directory of the compress
  tools (\<open>path.join(__dirname, '../bin/', os.platform())\<close>), \<open>os.cpus().length\<close>, the
  identifiers that successive calls of \<open>uuid.v4()\<close> return, and the rounding of the exact
  result of an arithmetic operation to the double that JavaScript stores.
\<close>

record host =
  tmpdir :: path
  compressToolDirectory :: path
  cpuCount :: nat
  uuid_v4 :: "nat \<Rightarrow> string"
  roundDouble :: "real \<Rightarrow> real"

definition path_join :: "path \<Rightarrow> string \<Rightarrow> path" where
  "path_join dir name = dir @ ''/'' @ name"

definition pvrTexToolPath :: "host \<Rightarrow> path" where
  "pvrTexToolPath h = path_join (compressToolDirectory h) ''PVRTexToolCLI''"

definition etc2compPath :: "host \<Rightarrow> path" where
  "etc2compPath h = path_join (compressToolDirectory h) ''EtcTool''"

definition crunchPath :: "host \<Rightarrow> path" where
  "crunchPath h = path_join (compressToolDirectory h) ''crunch''"

definition astcencPath :: "host \<Rightarrow> path" where
  "astcencPath h = path_join (compressToolDirectory h) ''astcenc''"

definition pvrTexToolExtensions :: "string list" where
  "pvrTexToolExtensions = [''.jpeg'', ''.jpg'', ''.png'', ''.bmp'']"

definition etc2compExtensions :: "string list" where
  "etc2compExtensions = [''.png'']"

definition crunchExtensions :: "string list" where
  "crunchExtensions = [''.jpeg'', ''.jpg'', ''.png'', ''.bmp'']"

definition astcencExtensions :: "string list" where
  "astcencExtensions = [''.jpeg'', ''.jpg'', ''.png'', ''.bmp'', ''.gif'']"

definition formats :: "string list" where
  "formats = [''pvrtc1'', ''pvrtc2'', ''etc1'', ''etc2'', ''astc'', ''dxt1'', ''dxt3'', ''dxt5'',
     ''crunch-dxt1'', ''crunch-dxt3'', ''crunch-dxt5'']"

definition astcBlockSizes :: "string list" where
  "astcBlockSizes = [''4x4'', ''5x4'', ''5x5'', ''6x5'', ''6x6'', ''8x5'', ''8x6'', ''8x8'',
     ''10x5'', ''10x6'', ''10x8'', ''10x10'', ''12x10'', ''12x12'']"

text \<open>\<open>Cesium.defaultValue(a, b)\<close>: \<open>b\<close> when \<open>a\<close> is undefined.\<close>

definition defaultValue :: "'a option \<Rightarrow> 'a \<Rightarrow> 'a" where
  "defaultValue a b = (case a of None \<Rightarrow> b | Some v \<Rightarrow> v)"

text \<open>\<open>String.prototype.indexOf\<close>: the first position of \<open>pat\<close> in the string, or \<open>-1\<close>.\<close>

fun indexOf_from :: "string \<Rightarrow> string \<Rightarrow> nat \<Rightarrow> int" where
  "indexOf_from [] pat i = (if pat = [] then int i else - 1)"
| "indexOf_from (c # cs) pat i =
     (if take (length pat) (c # cs) = pat then int i else indexOf_from cs pat (Suc i))"

definition indexOf :: "string \<Rightarrow> string \<Rightarrow> int" where
  "indexOf s pat = indexOf_from s pat 0"

text \<open>Reading an array at a number: undefined (\<open>None\<close>) outside the array.\<close>

definition js_index :: "'a list \<Rightarrow> int \<Rightarrow> 'a option" where
  "js_index xs i = (if 0 \<le> i \<and> i < int (length xs) then Some (xs ! nat i) else None)"

subsection \<open>Options, images and the glTF asset\<close>

datatype jsval = JBool bool | JNum real | JStr string

text \<open>
  The options object. A field that is \<open>None\<close> is an undefined property. \<open>transparent\<close> is
  not a documented option, but \<open>combine\<close> gives a property of the options object
  precedence over the image's; \<open>others\<close> are the remaining properties of the object.
\<close>

record options =
  format :: "string option"
  quality :: "real option"
  bitrate :: "real option"
  blockSize :: "string option"
  alphaBit :: "bool option"
  transparent :: "bool option"
  others :: "string \<rightharpoonup> jsval"

definition empty_options :: options where
  "empty_options = \<lparr>format = None, quality = None, bitrate = None, blockSize = None,
     alphaBit = None, transparent = None, others = Map.empty\<rparr>"

text \<open>
  A decoded image (\<open>jimpImage\<close>): the size of its bitmap and its pixels. Resampling is
  Jimp's; the pixels after a resize are kept as the term that names the operation.
\<close>

datatype pixels = Decoded "byte list" | Resampled pixels int int

record jimp =
  bitmap_width :: int
  bitmap_height :: int
  bitmap_data :: pixels

definition jimp_resize :: "jimp \<Rightarrow> int \<Rightarrow> int \<Rightarrow> jimp" where
  "jimp_resize j w h =
     \<lparr>bitmap_width = w, bitmap_height = h, bitmap_data = Resampled (bitmap_data j) w h\<rparr>"

text \<open>The pipeline extras of an image (\<open>image.extras._pipeline\<close>).\<close>

record image =
  absolutePath :: "path option"
  jimpImage :: "jimp option"
  source :: "byte list"
  img_transparent :: bool
  extension :: string
  imageChanged :: bool

text \<open>\<open>gltf.images\<close> in the order in which \<open>for ... in\<close> visits its own properties.\<close>

record gltf =
  images :: "(string \<times> image) list"

subsection \<open>Power-of-two arithmetic\<close>

text \<open>The operators \<open>|\<close> and \<open>>>\<close> work on the 32-bit two's complement value of a number.\<close>

definition ToInt32 :: "int \<Rightarrow> int32" where
  "ToInt32 x = word_of_int x"

definition previousPowerOfTwo :: "int \<Rightarrow> int" where
  "previousPowerOfTwo n0 =
    (let n = ToInt32 n0;
         n = n OR signed_drop_bit 1 n;
         n = n OR signed_drop_bit 2 n;
         n = n OR signed_drop_bit 4 n;
         n = n OR signed_drop_bit 8 n;
         n = n OR signed_drop_bit 16 n
     in sint n - sint (signed_drop_bit 1 n))"


text \<open>
  Modelled from the spec: \<open>CesiumMath.isPowerOfTwo\<close> belongs to the Cesium library, which
  is not part of the sources; the specification only uses it as "the dimension is
  already a power of two". A positive integer is a power of two exactly when it shares no
  bit with its predecessor.
\<close>

definition isPowerOfTwo :: "int \<Rightarrow> bool" where
  "isPowerOfTwo n \<longleftrightarrow> 0 < n \<and> n AND (n - 1) = 0"

subsection \<open>Command lines of the compress tools\<close>

text \<open>
  An entry of the argument list handed to \<open>child_process.spawn\<close>: a string, a number, the
  text that \<open>numberToString\<close> makes of a number, or \<open>undefined\<close>.
\<close>

datatype arg = Str string | Num real | NumStr real | Undefined

record cli =
  cli_path :: path
  cli_options :: "arg list"

text \<open>
  The object \<open>combine(options, {transparent : transparent})\<close> that a compress function
  receives. It is built after the defaults are set, so its properties are defined.
\<close>

record compressOptions =
  co_format :: string
  co_quality :: real
  co_bitrate :: real
  co_blockSize :: string
  co_alphaBit :: bool
  co_transparent :: bool

definition combine :: "options \<Rightarrow> bool \<Rightarrow> compressOptions" where
  "combine opts tr =
     \<lparr>co_format = defaultValue (format opts) [],
      co_quality = defaultValue (quality opts) 5,
      co_bitrate = defaultValue (bitrate opts) 2,
      co_blockSize = defaultValue (blockSize opts) ''8x8'',
      co_alphaBit = defaultValue (alphaBit opts) False,
      co_transparent = defaultValue (transparent opts) tr\<rparr>"

text \<open>The double that the literal \<open>2.1\<close> denotes: \<open>4728779608739021 / 2^51\<close>.\<close>

definition two_point_one :: real where
  "two_point_one = 4728779608739021 / 2251799813685248"

text \<open>\<open>Math.floor(options.quality / 2.1)\<close>, the quality on a scale from 0 to 4.\<close>

definition qualityTier :: "host \<Rightarrow> real \<Rightarrow> int" where
  "qualityTier h q = \<lfloor>roundDouble h (q / two_point_one)\<rfloor>"

definition arg_of :: "string option \<Rightarrow> arg" where
  "arg_of v = (case v of None \<Rightarrow> Undefined | Some s \<Rightarrow> Str s)"

definition compressWithEtc2comp :: "host \<Rightarrow> path \<Rightarrow> path \<Rightarrow> compressOptions \<Rightarrow> cli" where
  "compressWithEtc2comp h inputPath outputPath opts =
    (let quality = roundDouble h (co_quality opts * 10);
         format = co_format opts;
         transparent = co_transparent opts;
         alphaBit = co_alphaBit opts;
         cliFormat =
           (if format = ''etc1'' then Some ''ETC1''
            else if format = ''etc2'' then
              (if transparent \<and> alphaBit then Some ''RGB8A1''
               else if transparent \<and> \<not> alphaBit then Some ''RGBA8''
               else if \<not> transparent then Some ''RGB8''
               else None)
            else None);
         cliOptions = [Str inputPath, Str ''-format'', arg_of cliFormat, Str ''-effort'',
           Num quality, Str ''-jobs'', Num (real (cpuCount h)), Str ''-output'', Str outputPath]
     in \<lparr>cli_path = etc2compPath h, cli_options = cliOptions\<rparr>)"

definition pvrtcQualityOptions :: "string list" where
  "pvrtcQualityOptions = [''pvrtcfastest'', ''pvrtcfast'', ''pvrtcnormal'', ''pvrtchigh'', ''pvrtcbest'']"

definition compressWithPVRTexTool :: "host \<Rightarrow> path \<Rightarrow> path \<Rightarrow> compressOptions \<Rightarrow> cli" where
  "compressWithPVRTexTool h inputPath outputPath opts =
    (let format = co_format opts;
         quality = qualityTier h (co_quality opts);
         bitrate = co_bitrate opts;
         transparent = co_transparent opts;
         cliQuality = js_index pvrtcQualityOptions quality;
         cliFormat =
           (if format = ''pvrtc1'' then
              (if transparent \<and> bitrate = 2 then Some ''PVRTC1_2''
               else if transparent \<and> bitrate = 4 then Some ''PVRTC1_4''
               else if \<not> transparent \<and> bitrate = 2 then Some ''PVRTC1_2_RGB''
               else if \<not> transparent \<and> bitrate = 4 then Some ''PVRTC1_4_RGB''
               else None)
            else if format = ''pvrtc2'' then
              (if bitrate = 2 then Some ''PVRTC2_2''
               else if bitrate = 4 then Some ''PVRTC2_4''
               else None)
            else None);
         cliOptions = [Str ''-i'', Str inputPath, Str ''-o'', Str outputPath, Str ''-f'',
           arg_of cliFormat, Str ''-q'', arg_of cliQuality, Str ''-square'', Str ''-'',
           Str ''-pot'', Str ''-'']
     in \<lparr>cli_path = pvrTexToolPath h, cli_options = cliOptions\<rparr>)"

definition dxtQualityOptions :: "string list" where
  "dxtQualityOptions = [''superfast'', ''fast'', ''normal'', ''better'', ''uber'']"

definition compressWithCrunch :: "host \<Rightarrow> path \<Rightarrow> path \<Rightarrow> compressOptions \<Rightarrow> cli" where
  "compressWithCrunch h inputPath outputPath opts =
    (let quality = qualityTier h (co_quality opts);
         format = co_format opts;
         transparent = co_transparent opts;
         dxtQuality = js_index dxtQualityOptions quality;
         crunch = (indexOf format ''crunch'' \<ge> 0);
         fileFormat = (if crunch then ''crn'' else ''ktx'');
         format = (if crunch then drop 7 format else format);
         cliFormat =
           (if format = ''dxt1'' then (if transparent then Some ''-DXT1A'' else Some ''-DXT1'')
            else if format = ''dxt3'' then Some ''-DXT3''
            else if format = ''dxt5'' then Some ''-DXT5''
            else None);
         cliOptions = [Str ''-file'', Str inputPath, Str ''-out'', Str outputPath,
           Str ''-fileformat'', Str fileFormat, Str ''-helperThreads'', Num (real (cpuCount h)),
           Str ''-dxtQuality'', arg_of dxtQuality, Str ''-rescalemode'', Str ''lo'',
           Str ''-mipMode'', Str ''None'', arg_of cliFormat]
     in \<lparr>cli_path = crunchPath h, cli_options = cliOptions\<rparr>)"

definition astcQualityOptions :: "string list" where
  "astcQualityOptions = [''-veryfast'', ''-fast'', ''-medium'', ''-thorough'', ''-exhaustive'']"

definition compressWithAstcenc :: "host \<Rightarrow> path \<Rightarrow> path \<Rightarrow> compressOptions \<Rightarrow> cli" where
  "compressWithAstcenc h inputPath outputPath opts =
    (let quality = qualityTier h (co_quality opts);
         bitrate = co_bitrate opts;
         blockSize = co_blockSize opts;
         transparent = co_transparent opts;
         cliQuality = js_index astcQualityOptions quality;
         cliRate = (if bitrate \<noteq> 2 then NumStr bitrate else Str blockSize);
         cliOptions = [Str ''-cl'', Str inputPath, Str outputPath, cliRate, Str ''-j'',
           Num (real (cpuCount h)), arg_of cliQuality];
         cliOptions = (if transparent then cliOptions @ [Str ''-alphablend''] else cliOptions)
     in \<lparr>cli_path = astcencPath h, cli_options = cliOptions\<rparr>)"

text \<open>The variable \<open>compressFunction\<close> holds one of the four functions above.\<close>

datatype tool = PVRTexTool | Etc2comp | Crunch | Astcenc

fun compressFunction :: "tool \<Rightarrow> host \<Rightarrow> path \<Rightarrow> path \<Rightarrow> compressOptions \<Rightarrow> cli" where
  "compressFunction PVRTexTool = compressWithPVRTexTool"
| "compressFunction Etc2comp = compressWithEtc2comp"
| "compressFunction Crunch = compressWithCrunch"
| "compressFunction Astcenc = compressWithAstcenc"

text \<open>
  The choice of the compress tool: the accepted input extensions, the compress function
  and \<open>resizeToPowerOfTwo\<close>. For a format outside the chain the three variables keep their
  initial values (\<open>None\<close> for the two that start undefined).
\<close>

record policy =
  inputExtensions :: "string list option"
  compressTool :: "tool option"
  resizeToPowerOfTwo :: bool

definition choosePolicy :: "string \<Rightarrow> policy" where
  "choosePolicy fmt =
    (if fmt = ''pvrtc1'' \<or> fmt = ''pvrtc2'' then
       \<lparr>inputExtensions = Some pvrTexToolExtensions, compressTool = Some PVRTexTool,
        resizeToPowerOfTwo = False\<rparr>
     else if fmt = ''etc1'' \<or> fmt = ''etc2'' then
       \<lparr>inputExtensions = Some etc2compExtensions, compressTool = Some Etc2comp,
        resizeToPowerOfTwo = True\<rparr>
     else if fmt = ''dxt1'' \<or> fmt = ''dxt3'' \<or> fmt = ''dxt5'' \<or> fmt = ''crunch-dxt1''
          \<or> fmt = ''crunch-dxt3'' \<or> fmt = ''crunch-dxt5'' then
       \<lparr>inputExtensions = Some crunchExtensions, compressTool = Some Crunch,
        resizeToPowerOfTwo = False\<rparr>
     else if fmt = ''astc'' then
       \<lparr>inputExtensions = Some astcencExtensions, compressTool = Some Astcenc,
        resizeToPowerOfTwo = True\<rparr>
     else \<lparr>inputExtensions = None, compressTool = None, resizeToPowerOfTwo = False\<rparr>)"

subsection \<open>The promise of one image\<close>

text \<open>The value \<open>{buffer, extension}\<close> that \<open>compressFile\<close> resolves to.\<close>

record compressed =
  c_buffer :: "byte list"
  c_extension :: string

text \<open>
  The promise chain of one image is, at any moment, waiting for one asynchronous
  operation or settled:
  \<^item> \<open>GetBuffer j\<close>: \<open>compressJimpImage\<close> waits for \<open>jimpImage.getBufferAsync(Jimp.MIME_PNG)\<close>;
  \<^item> \<open>WriteFile inputPath buffer\<close>: \<open>compressBuffer\<close> waits for \<open>fsExtraWriteFile\<close>;
  \<^item> \<open>Process cli outputPath extension\<close>: \<open>compressFile\<close> has spawned the tool and waits
    for its \<open>exit\<close> or \<open>error\<close> event;
  \<^item> \<open>ReadFile outputPath extension\<close>: \<open>compressFile\<close> waits for \<open>fxExtraReadFile\<close>;
  \<^item> \<open>Fulfilled c\<close>: \<open>replaceImage\<close> has stored \<open>c\<close> in the image;
  \<^item> \<open>Rejected e\<close>.
\<close>

datatype promise =
    GetBuffer jimp
  | WriteFile path "byte list"
  | Process cli path string
  | ReadFile path string
  | Fulfilled compressed
  | Rejected error

record task =
  t_imageId :: string
  t_options :: compressOptions
  t_promise :: promise

text \<open>The functions draw their random names from \<open>uuid_v4\<close>; \<open>k\<close> counts the calls so far.\<close>

definition getTempDirectory :: "host \<Rightarrow> nat \<Rightarrow> path \<times> nat" where
  "getTempDirectory h k = (path_join (tmpdir h) (uuid_v4 h k), Suc k)"

definition getTempImagePath :: "host \<Rightarrow> nat \<Rightarrow> path \<Rightarrow> string \<Rightarrow> path \<times> nat" where
  "getTempImagePath h k tempDirectory ext = (path_join tempDirectory (uuid_v4 h k @ ext), Suc k)"

definition outputExtension :: "compressOptions \<Rightarrow> string" where
  "outputExtension opts = (if indexOf (co_format opts) ''crunch'' \<ge> 0 then ''.crn'' else ''.ktx'')"

definition compressFile ::
  "host \<Rightarrow> nat \<Rightarrow> path \<Rightarrow> path \<Rightarrow> tool \<Rightarrow> compressOptions \<Rightarrow> promise \<times> nat" where
  "compressFile h k inputPath tempDirectory cf opts =
    (let extension = outputExtension opts;
         (outputPath, k') = getTempImagePath h k tempDirectory extension;
         cli = compressFunction cf h inputPath outputPath opts
     in (Process cli outputPath extension, k'))"

definition compressBuffer ::
  "host \<Rightarrow> nat \<Rightarrow> byte list \<Rightarrow> string \<Rightarrow> path \<Rightarrow> promise \<times> nat" where
  "compressBuffer h k buffer ext tempDirectory =
    (let (inputPath, k') = getTempImagePath h k tempDirectory ext
     in (WriteFile inputPath buffer, k'))"

definition compressJimpImage :: "jimp \<Rightarrow> promise" where
  "compressJimpImage j = GetBuffer j"

subsection \<open>The synchronous part of \<open>compressTextures\<close>\<close>

text \<open>Lines 149 to 157: the resize of a decoded image when the format asks for it.\<close>

definition resizeIfNeeded :: "jimp \<Rightarrow> jimp" where
  "resizeIfNeeded j =
    (let width = bitmap_width j; height = bitmap_height j
     in if \<not> isPowerOfTwo width \<or> \<not> isPowerOfTwo height
        then jimp_resize j (previousPowerOfTwo width) (previousPowerOfTwo height)
        else j)"

definition unsupportedInputMessage :: "string \<Rightarrow> string" where
  "unsupportedInputMessage fmt =
     ''The input image format '' @ [CHR 0x22] @ fmt @ [CHR 0x22]
       @ '' is not supported for texture compression.''"

text \<open>
  The body of the loop for one image: the image as the loop leaves it, the promise it
  pushes and the count of names drawn, or the error it throws.
\<close>

definition startImage ::
  "host \<Rightarrow> string \<Rightarrow> string list \<Rightarrow> tool \<Rightarrow> bool \<Rightarrow> options \<Rightarrow> path \<Rightarrow> nat
     \<Rightarrow> string \<times> image \<Rightarrow> error + ((string \<times> image) \<times> task \<times> nat)" where
  "startImage h fmt exts cf resizeP opts tempDirectory k entry =
    (let imageId = fst entry; img = snd entry;
         compressOpts = combine opts (img_transparent img)
     in if resizeP \<or> imageChanged img \<or> extension img \<notin> set exts then
          (case jimpImage img of
             None \<Rightarrow> Inl (DeveloperError (unsupportedInputMessage fmt))
           | Some j \<Rightarrow>
               (let j' = (if resizeP then resizeIfNeeded j else j)
                in Inr ((imageId, img\<lparr>jimpImage := Some j'\<rparr>),
                        \<lparr>t_imageId = imageId, t_options = compressOpts,
                         t_promise = compressJimpImage j'\<rparr>, k)))
        else
          (case absolutePath img of
             Some p \<Rightarrow>
               (let (pr, k') = compressFile h k p tempDirectory cf compressOpts
                in Inr ((imageId, img),
                        \<lparr>t_imageId = imageId, t_options = compressOpts, t_promise = pr\<rparr>, k'))
           | None \<Rightarrow>
               (let (pr, k') = compressBuffer h k (source img) (extension img) tempDirectory
                in Inr ((imageId, img),
                        \<lparr>t_imageId = imageId, t_options = compressOpts, t_promise = pr\<rparr>, k'))))"

text \<open>
  The loop over \<open>gltf.images\<close>. A throw leaves the loop at once: the result then holds the
  error, the images (those not reached are unchanged) and the promises pushed so far.
\<close>

fun startImages ::
  "host \<Rightarrow> string \<Rightarrow> string list \<Rightarrow> tool \<Rightarrow> bool \<Rightarrow> options \<Rightarrow> path
     \<Rightarrow> (string \<times> image) list \<Rightarrow> nat \<Rightarrow> (string \<times> image) list \<Rightarrow> task list
     \<Rightarrow> error option \<times> (string \<times> image) list \<times> task list \<times> nat" where
  "startImages h fmt exts cf resizeP opts tempDirectory [] k imgs ts = (None, imgs, ts, k)"
| "startImages h fmt exts cf resizeP opts tempDirectory (x # xs) k imgs ts =
     (case startImage h fmt exts cf resizeP opts tempDirectory k x of
        Inl e \<Rightarrow> (Some e, imgs @ x # xs, ts, k)
      | Inr (x', t, k') \<Rightarrow>
          startImages h fmt exts cf resizeP opts tempDirectory xs k' (imgs @ [x']) (ts @ [t]))"

subsection \<open>The promise that \<open>compressTextures\<close> returns\<close>

datatype io = NotStarted | InFlight | Succeeded | Failed error

datatype settled = Pending | Resolved | RejectedWith error

text \<open>
  The state behind the returned promise: the compress function, the temporary directory
  and whether it exists on disk, the images, the promises of the images, the count of
  names drawn, the state of \<open>fsExtraEnsureDir\<close> and of \<open>fsExtraRemove\<close>, how often
  \<open>fsExtraRemove\<close> was called, and the state of the returned promise itself.
\<close>

record batch =
  b_tool :: tool
  b_tempDirectory :: path
  b_dirExists :: bool
  b_images :: "(string \<times> image) list"
  b_tasks :: "task list"
  b_nextId :: nat
  b_ensureDir :: io
  b_remove :: io
  b_removeCalls :: nat
  b_result :: settled

text \<open>
  What a call of \<open>compressTextures\<close> leaves behind when it returns or throws: the error
  thrown (if any), the options object, the images, the promises that the loop has
  pushed, and the promise returned (if any).
\<close>

record call_result =
  thrown :: "error option"
  options_after :: options
  images_after :: "(string \<times> image) list"
  started :: "task list"
  returned :: "batch option"

definition throw :: "error \<Rightarrow> options \<Rightarrow> (string \<times> image) list \<Rightarrow> call_result" where
  "throw e opts imgs =
     \<lparr>thrown = Some e, options_after = opts, images_after = imgs, started = [],
      returned = None\<rparr>"

fun join_comma :: "string list \<Rightarrow> string" where
  "join_comma [] = []"
| "join_comma [x] = x"
| "join_comma (x # y # ys) = x @ '', '' @ join_comma (y # ys)"

definition unsupportedFormatMessage :: "string \<Rightarrow> string" where
  "unsupportedFormatMessage fmt =
     ''format '' @ [CHR 0x22] @ fmt @ [CHR 0x22]
       @ '' is not a supported format. Supported formats are '' @ join_comma formats @ ''.''"

definition unsupportedBlockSizeMessage :: "string \<Rightarrow> string" where
  "unsupportedBlockSizeMessage bs =
     ''Block size '' @ [CHR 0x22] @ bs @ [CHR 0x22]
       @ '' is not supported. Supported values are '' @ join_comma astcBlockSizes @ ''.''"

text \<open>Lines 71 to 74: the defaults, written into the options object.\<close>

definition setDefaults :: "options \<Rightarrow> options" where
  "setDefaults opts =
    (let opts = opts\<lparr>quality := Some (defaultValue (quality opts) 5)\<rparr>;
         opts = opts\<lparr>bitrate := Some (defaultValue (bitrate opts) 2)\<rparr>;
         opts = opts\<lparr>blockSize := Some (defaultValue (blockSize opts) ''8x8'')\<rparr>;
         opts = opts\<lparr>alphaBit := Some (defaultValue (alphaBit opts) False)\<rparr>
     in opts)"

text \<open>
  \<open>compressTextures(gltf, options)\<close> up to its \<open>return\<close>. An undefined \<open>gltf\<close> or \<open>options\<close>
  is \<open>None\<close>. After the test of \<open>formats.includes(format)\<close> the chain that chooses the tool
  always assigns the two variables, so the last case cannot be reached; it is the
  \<open>TypeError\<close> of reading \<open>includes\<close> of \<open>undefined\<close>.
\<close>

definition compressTextures :: "host \<Rightarrow> gltf option \<Rightarrow> options option \<Rightarrow> call_result" where
  "compressTextures h gltf0 options0 =
    (let opts = defaultValue options0 empty_options
     in case gltf0 of
          None \<Rightarrow> throw (DeveloperError ''gltf must be defined'') opts []
        | Some g \<Rightarrow>
           (case format opts of
              None \<Rightarrow> throw (DeveloperError ''options.format must be defined.'') opts (images g)
            | Some fmt \<Rightarrow>
                if fmt \<notin> set formats
                then throw (DeveloperError (unsupportedFormatMessage fmt)) opts (images g)
                else
                 (let opts = setDefaults opts;
                      q = defaultValue (quality opts) 5;
                      br = defaultValue (bitrate opts) 2;
                      bs = defaultValue (blockSize opts) ''8x8''
                  in if q < 0 \<or> q > 10
                     then throw (DeveloperError ''Quality must be between 0 and 10.'') opts (images g)
                     else if (fmt = ''pvrtc1'' \<or> fmt = ''pvrtc2'') \<and> br \<noteq> 2 \<and> br \<noteq> 4
                     then throw (DeveloperError
                            ''bitrate (bits-per-pixel) must be 2 or 4 when using pvrtc.'')
                            opts (images g)
                     else if fmt = ''astc'' \<and> bs \<notin> set astcBlockSizes
                     then throw (DeveloperError (unsupportedBlockSizeMessage bs)) opts (images g)
                     else
                      (let pol = choosePolicy fmt;
                           (tempDirectory, k) = getTempDirectory h 0
                       in case (inputExtensions pol, compressTool pol) of
                            (Some exts, Some cf) \<Rightarrow>
                              (case startImages h fmt exts cf (resizeToPowerOfTwo pol) opts
                                      tempDirectory (images g) k [] [] of
                                 (Some e, imgs, ts, k') \<Rightarrow>
                                   \<lparr>thrown = Some e, options_after = opts, images_after = imgs,
                                    started = ts, returned = None\<rparr>
                               | (None, imgs, ts, k') \<Rightarrow>
                                   \<lparr>thrown = None, options_after = opts, images_after = imgs,
                                    started = ts,
                                    returned = Some
                                      \<lparr>b_tool = cf, b_tempDirectory = tempDirectory,
                                       b_dirExists = False, b_images = imgs, b_tasks = ts,
                                       b_nextId = k', b_ensureDir = InFlight,
                                       b_remove = NotStarted, b_removeCalls = 0,
                                       b_result = Pending\<rparr>\<rparr>)
                          | _ \<Rightarrow> throw (TypeError ''Cannot read property includes of undefined'')
                                  opts (images g)))))"

subsection \<open>Completion of the asynchronous operations\<close>

text \<open>
  The callbacks that the event loop delivers to the promise of one image: the PNG buffer
  of \<open>getBuffer\<close> or its error, the end of \<open>outputFile\<close>, the \<open>error\<close> and \<open>exit\<close> events of
  the child process, the buffer of \<open>readFile\<close> or its error. An event of the whole run is
  such a callback for the promise at an index of \<open>promises\<close>, or the end of
  \<open>fsExtraEnsureDir\<close> or of \<open>fsExtraRemove\<close> (\<open>None\<close>: without error).
\<close>

datatype completion =
    BufferReady "error + byte list"
  | FileWritten "error option"
  | ChildError error
  | ChildExit int
  | FileRead "error + byte list"

datatype event = Task nat completion | DirEnsured "error option" | DirRemoved "error option"

text \<open>The decimal text that \<open>+\<close> makes of the exit code when it joins it to the message.\<close>

definition digit_char :: "nat \<Rightarrow> char" where
  "digit_char d = char_of (d + 48)"

fun decimal :: "nat \<Rightarrow> string" where
  "decimal n =
     (if n div 10 = 0 then [digit_char n]
      else decimal (n div 10) @ [digit_char (n mod 10)])"

declare decimal.simps [simp del]

definition number_text :: "int \<Rightarrow> string" where
  "number_text i = (if 0 \<le> i then decimal (nat i) else CHR ''-'' # decimal (nat (- i)))"

definition exitMessage :: "int \<Rightarrow> string" where
  "exitMessage code = ''Converter tool exited with an error code of '' @ number_text code"

text \<open>
  One callback on the promise of one image, with the continuation that the source chains
  to it. A callback that the promise does not wait for changes nothing.
\<close>

fun react ::
  "host \<Rightarrow> nat \<Rightarrow> path \<Rightarrow> tool \<Rightarrow> compressOptions \<Rightarrow> promise \<Rightarrow> completion \<Rightarrow> promise \<times> nat" where
  "react h k td cf opts (GetBuffer j) (BufferReady (Inr buffer)) =
     compressBuffer h k buffer ''.png'' td"
| "react h k td cf opts (GetBuffer j) (BufferReady (Inl e)) = (Rejected e, k)"
| "react h k td cf opts (WriteFile inputPath buffer) (FileWritten None) =
     compressFile h k inputPath td cf opts"
| "react h k td cf opts (WriteFile inputPath buffer) (FileWritten (Some e)) = (Rejected e, k)"
| "react h k td cf opts (Process c outputPath ext) (ChildError e) = (Rejected e, k)"
| "react h k td cf opts (Process c outputPath ext) (ChildExit code) =
     (if code \<noteq> 0 then Rejected (Rejection (exitMessage code)) else ReadFile outputPath ext, k)"
| "react h k td cf opts (ReadFile outputPath ext) (FileRead (Inr buffer)) =
     (Fulfilled \<lparr>c_buffer = buffer, c_extension = ext\<rparr>, k)"
| "react h k td cf opts (ReadFile outputPath ext) (FileRead (Inl e)) = (Rejected e, k)"
| "react h k td cf opts p c = (p, k)"

text \<open>\<open>replaceImage(image)\<close>, applied to the value that the promise of the image resolves to.\<close>

definition replaceImage ::
  "string \<Rightarrow> compressed \<Rightarrow> (string \<times> image) list \<Rightarrow> (string \<times> image) list" where
  "replaceImage imageId c imgs =
     map (\<lambda>entry. if fst entry = imageId
                   then (fst entry, (snd entry)\<lparr>source := c_buffer c, extension := c_extension c\<rparr>)
                   else entry) imgs"

fun is_writing :: "promise \<Rightarrow> bool" where
  "is_writing (WriteFile inputPath buffer) = True"
| "is_writing p = False"

fun is_fulfilled :: "promise \<Rightarrow> bool" where
  "is_fulfilled (Fulfilled c) = True"
| "is_fulfilled p = False"

fun is_settled :: "promise \<Rightarrow> bool" where
  "is_settled (Fulfilled c) = True"
| "is_settled (Rejected e) = True"
| "is_settled p = False"

fun first_rejection :: "task list \<Rightarrow> error option" where
  "first_rejection [] = None"
| "first_rejection (t # ts) =
     (case t_promise t of Rejected e \<Rightarrow> Some e | _ \<Rightarrow> first_rejection ts)"

text \<open>
  Lines 172 to 178. Once the directory is ensured, \<open>Promise.all(promises)\<close> rejects as soon
  as one promise is rejected and resolves when all are fulfilled. The \<open>finally\<close> handler
  then calls \<open>fsExtraRemove\<close> and returns nothing, so the returned promise settles with the
  outcome of \<open>Promise.all\<close> without waiting for the removal.
\<close>

definition settle :: "batch \<Rightarrow> batch" where
  "settle b =
    (if b_ensureDir b = Succeeded \<and> b_result b = Pending then
       (case first_rejection (b_tasks b) of
          Some e \<Rightarrow>
            b\<lparr>b_result := RejectedWith e, b_remove := InFlight,
              b_removeCalls := Suc (b_removeCalls b)\<rparr>
        | None \<Rightarrow>
            if list_all (\<lambda>t. is_fulfilled (t_promise t)) (b_tasks b)
            then b\<lparr>b_result := Resolved, b_remove := InFlight,
                   b_removeCalls := Suc (b_removeCalls b)\<rparr>
            else b)
     else b)"

text \<open>
  One event. \<open>fsExtra.outputFile\<close> creates the directory of the file when it is missing, so
  a successful write leaves the temporary directory on disk, as a successful
  \<open>ensureDir\<close> does; a successful \<open>remove\<close> deletes it.
\<close>

definition step :: "host \<Rightarrow> batch \<Rightarrow> event \<Rightarrow> batch" where
  "step h b ev =
    (case ev of
       Task i c \<Rightarrow>
         if i < length (b_tasks b) then
           (let t = b_tasks b ! i;
                (p, k) = react h (b_nextId b) (b_tempDirectory b) (b_tool b) (t_options t)
                           (t_promise t) c;
                wrote = (is_writing (t_promise t) \<and> c = FileWritten None);
                imgs = (case p of
                          Fulfilled r \<Rightarrow>
                            if is_fulfilled (t_promise t) then b_images b
                            else replaceImage (t_imageId t) r (b_images b)
                        | _ \<Rightarrow> b_images b)
            in settle (b\<lparr>b_tasks := (b_tasks b)[i := t\<lparr>t_promise := p\<rparr>], b_nextId := k,
                          b_dirExists := (wrote \<or> b_dirExists b), b_images := imgs\<rparr>))
         else b
     | DirEnsured r \<Rightarrow>
         if b_ensureDir b = InFlight then
           (case r of
              None \<Rightarrow> settle (b\<lparr>b_ensureDir := Succeeded, b_dirExists := True\<rparr>)
            | Some e \<Rightarrow> b\<lparr>b_ensureDir := Failed e, b_result := RejectedWith e\<rparr>)
         else b
     | DirRemoved r \<Rightarrow>
         if b_remove b = InFlight then
           (case r of
              None \<Rightarrow> b\<lparr>b_remove := Succeeded, b_dirExists := False\<rparr>
            | Some e \<Rightarrow> b\<lparr>b_remove := Failed e\<rparr>)
         else b)"

definition run :: "host \<Rightarrow> batch \<Rightarrow> event list \<Rightarrow> batch" where
  "run h b evs = foldl (step h) b evs"

section \<open>The KTX parser: \<^verbatim>\<open>lib/loadKTX.js\<close>\<close>

subsection \<open>Buffers and views\<close>

text \<open>
  The argument of \<open>parseKTX\<close> is what \<open>loadKTX\<close> passes on: an \<open>ArrayBuffer\<close>, or a view with
  elements of one byte (a \<open>Uint8Array\<close> or a Node \<open>Buffer\<close>) over a buffer, at a byte offset
  and of a length.
\<close>

datatype ktx_data = ArrayBuffer "byte list" | View "byte list" nat nat

fun contents :: "ktx_data \<Rightarrow> byte list" where
  "contents (ArrayBuffer b) = b"
| "contents (View b off len) = take len (drop off b)"

text \<open>A \<open>Uint8Array\<close>: the buffer it looks into, its byte offset and its length.\<close>

record uint8array =
  v_buffer :: "byte list"
  v_byteOffset :: nat
  v_length :: nat

definition view_bytes :: "uint8array \<Rightarrow> byte list" where
  "view_bytes v = take (v_length v) (drop (v_byteOffset v) (v_buffer v))"

text \<open>
  \<open>new Uint8Array(buffer, byteOffset, length)\<close> on an \<open>ArrayBuffer\<close>: a view, or a
  \<open>RangeError\<close> when the range leaves the buffer.
\<close>

definition new_view :: "byte list \<Rightarrow> nat \<Rightarrow> nat \<Rightarrow> error + uint8array" where
  "new_view b off len =
     (if off + len \<le> length b
      then Inr \<lparr>v_buffer = b, v_byteOffset = off, v_length = len\<rparr>
      else Inl (RangeError ''Invalid typed array length''))"

text \<open>
  \<open>new Uint8Array(data, byteOffset, length)\<close>: when \<open>data\<close> is itself a typed array, the
  constructor ignores the other two arguments and copies the elements of \<open>data\<close> into a
  buffer of its own.
\<close>

fun new_Uint8Array :: "ktx_data \<Rightarrow> nat \<Rightarrow> nat \<Rightarrow> error + uint8array" where
  "new_Uint8Array (ArrayBuffer b) off len = new_view b off len"
| "new_Uint8Array (View b o' l') off len =
     Inr \<lparr>v_buffer = contents (View b o' l'), v_byteOffset = 0, v_length = length (contents (View b o' l'))\<rparr>"

text \<open>\<open>DataView.getUint32(byteOffset, true)\<close> where the four bytes lie inside the view.\<close>

definition u32 :: "byte list \<Rightarrow> nat \<Rightarrow> nat" where
  "u32 b off =
     unat (b ! off) + 256 * unat (b ! (off + 1)) + 65536 * unat (b ! (off + 2))
       + 16777216 * unat (b ! (off + 3))"

definition getUint32 :: "byte list \<Rightarrow> nat \<Rightarrow> error + nat" where
  "getUint32 b off =
     (if off + 4 \<le> length b then Inr (u32 b off)
      else Inl (RangeError ''Offset is outside the bounds of the DataView''))"

subsection \<open>Cesium\<close>

text \<open>
  The properties of the Cesium module that are error classes. It has a \<open>DeveloperError\<close>
  and a \<open>RuntimeError\<close>; any other name reads as \<open>undefined\<close>.
\<close>

definition Cesium :: "string \<rightharpoonup> (string \<Rightarrow> error)" where
  "Cesium = [''DeveloperError'' \<mapsto> DeveloperError, ''RuntimeError'' \<mapsto> CesiumRuntimeError]"

text \<open>Line 9: \<^verbatim>\<open>var RuntimeError = Cesium.RuntimError;\<close>\<close>

definition RuntimeError :: "(string \<Rightarrow> error) option" where
  "RuntimeError = Cesium ''RuntimError''"

text \<open>
  The value thrown by \<open>throw new RuntimeError(message)\<close>: calling \<open>new\<close> on \<open>undefined\<close>
  raises a \<open>TypeError\<close> instead of building the error.
\<close>

definition new_RuntimeError :: "string \<Rightarrow> error" where
  "new_RuntimeError message =
     (case RuntimeError of
        None \<Rightarrow> TypeError ''RuntimeError is not a constructor''
      | Some ctor \<Rightarrow> ctor message)"

text \<open>
  \<open>Cesium.PixelFormat\<close> is not part of the sources; the parser takes what it uses of it
  as a parameter: the constants \<open>RGB\<close> and \<open>RGBA\<close>, \<open>validate\<close>, \<open>isCompressedFormat\<close> and
  \<open>compressedTextureSize\<close>.
\<close>

record pixelFormat =
  pf_RGB :: nat
  pf_RGBA :: nat
  pf_validate :: "nat \<Rightarrow> bool"
  pf_isCompressedFormat :: "nat \<Rightarrow> bool"
  pf_compressedTextureSize :: "nat \<Rightarrow> nat \<Rightarrow> nat \<Rightarrow> nat"

subsection \<open>\<open>parseKTX\<close>\<close>

definition fileIdentifier :: "byte list" where
  "fileIdentifier = [0xAB, 0x4B, 0x54, 0x58, 0x20, 0x31, 0x31, 0xBB, 0x0D, 0x0A, 0x1A, 0x0A]"

definition endiannessTest :: nat where
  "endiannessTest = 0x04030201"

definition sizeOfUint32 :: nat where
  "sizeOfUint32 = 4"

record compressedTextureBuffer =
  internalFormat :: nat
  width :: nat
  height :: nat
  bufferView :: uint8array

text \<open>
  Lines 214 to 262: the checks on the header fields and the choice of the level 0
  mipmap, once the fields and the texture view are read.
\<close>

definition validateKTX ::
  "pixelFormat \<Rightarrow> nat \<Rightarrow> nat \<Rightarrow> nat \<Rightarrow> nat \<Rightarrow> nat \<Rightarrow> nat \<Rightarrow> nat \<Rightarrow> nat \<Rightarrow> nat \<Rightarrow> nat \<Rightarrow> nat
     \<Rightarrow> uint8array \<Rightarrow> error + compressedTextureBuffer" where
  "validateKTX pf glType glTypeSize glFormat glInternalFormat0 glBaseInternalFormat pixelWidth
       pixelHeight pixelDepth numberOfArrayElements numberOfFaces numberOfMipmapLevels texture =
    (let glInternalFormat =
           (if glInternalFormat0 = 0x8051 then pf_RGB pf
            else if glInternalFormat0 = 0x8058 then pf_RGBA pf
            else glInternalFormat0)
     in if \<not> pf_validate pf glInternalFormat
        then Inl (new_RuntimeError ''glInternalFormat is not a valid format.'')
        else if pf_isCompressedFormat pf glInternalFormat \<and> glType \<noteq> 0
        then Inl (new_RuntimeError ''glType must be zero when the texture is compressed.'')
        else if pf_isCompressedFormat pf glInternalFormat \<and> glTypeSize \<noteq> 1
        then Inl (new_RuntimeError ''The type size for compressed textures must be 1.'')
        else if pf_isCompressedFormat pf glInternalFormat \<and> glFormat \<noteq> 0
        then Inl (new_RuntimeError ''glFormat must be zero when the texture is compressed.'')
        else if pf_isCompressedFormat pf glInternalFormat \<and> numberOfMipmapLevels = 0
        then Inl (new_RuntimeError
               ''Generating mipmaps for a compressed texture is unsupported.'')
        else if \<not> pf_isCompressedFormat pf glInternalFormat \<and> glBaseInternalFormat \<noteq> glFormat
        then Inl (new_RuntimeError
               ''The base internal format must be the same as the format for uncompressed textures.'')
        else if pixelDepth \<noteq> 0
        then Inl (new_RuntimeError ''3D textures are unsupported.'')
        else if numberOfArrayElements \<noteq> 0
        then Inl (new_RuntimeError ''Texture arrays are unsupported.'')
        else if numberOfFaces \<noteq> 1
        then Inl (new_RuntimeError ''Cubemaps are unsupported.'')
        else
          (case (if pf_isCompressedFormat pf glInternalFormat \<and> numberOfMipmapLevels > 1
                 then new_view (v_buffer texture) 0
                        (pf_compressedTextureSize pf glInternalFormat pixelWidth pixelHeight)
                 else Inr texture) of
             Inl e \<Rightarrow> Inl e
           | Inr texture' \<Rightarrow>
               Inr \<lparr>internalFormat = glInternalFormat, width = pixelWidth,
                    height = pixelHeight, bufferView = texture'\<rparr>))"

text \<open>
  \<open>parseKTX(data)\<close>. The \<open>DataView\<close> looks into \<open>data.buffer\<close> from \<open>data.byteOffset\<close> when
  \<open>data\<close> is a view, into \<open>data\<close> from 0 otherwise. The twelve header fields after the
  endianness lie at rising offsets, so they are all read, or the first one that leaves
  the view raises the \<open>RangeError\<close>.
\<close>

definition parseKTX :: "pixelFormat \<Rightarrow> ktx_data \<Rightarrow> error + compressedTextureBuffer" where
  "parseKTX pf data =
    (let byteBuffer = contents data
     in if take (length fileIdentifier) byteBuffer \<noteq> fileIdentifier
        then Inl (new_RuntimeError ''Invalid KTX file.'')
        else
         (let view = (case data of ArrayBuffer b \<Rightarrow> b | View b off len \<Rightarrow> b);
              byteOffset = (case data of ArrayBuffer b \<Rightarrow> 0 | View b off len \<Rightarrow> off);
              byteOffset = byteOffset + 12
          in case getUint32 view byteOffset of
               Inl e \<Rightarrow> Inl e
             | Inr endianness \<Rightarrow>
                 if endianness \<noteq> endiannessTest
                 then Inl (new_RuntimeError ''File is the wrong endianness.'')
                 else
                  (let byteOffset = byteOffset + sizeOfUint32
                   in if \<not> byteOffset + 12 * sizeOfUint32 \<le> length view
                      then Inl (RangeError ''Offset is outside the bounds of the DataView'')
                      else
                       (let glType = u32 view byteOffset;
                            glTypeSize = u32 view (byteOffset + 4);
                            glFormat = u32 view (byteOffset + 8);
                            glInternalFormat = u32 view (byteOffset + 12);
                            glBaseInternalFormat = u32 view (byteOffset + 16);
                            pixelWidth = u32 view (byteOffset + 20);
                            pixelHeight = u32 view (byteOffset + 24);
                            pixelDepth = u32 view (byteOffset + 28);
                            numberOfArrayElements = u32 view (byteOffset + 32);
                            numberOfFaces = u32 view (byteOffset + 36);
                            numberOfMipmapLevels = u32 view (byteOffset + 40);
                            bytesOfKeyValueByteSize = u32 view (byteOffset + 44);
                            byteOffset = byteOffset + 12 * sizeOfUint32 + bytesOfKeyValueByteSize
                        in case getUint32 view byteOffset of
                             Inl e \<Rightarrow> Inl e
                           | Inr imageSize \<Rightarrow>
                               (case new_Uint8Array data (byteOffset + sizeOfUint32) imageSize of
                                  Inl e \<Rightarrow> Inl e
                                | Inr texture \<Rightarrow>
                                    validateKTX pf glType glTypeSize glFormat glInternalFormat
                                      glBaseInternalFormat pixelWidth pixelHeight pixelDepth
                                      numberOfArrayElements numberOfFaces numberOfMipmapLevels
                                      texture)))))"

section \<open>Auxiliary notions and example inputs\<close>

text \<open>
  The options that pass the four checks of \<open>compressTextures\<close>: a supported format, a
  quality from 0 to 10, a bitrate of 2 or 4 with the pvrtc formats, and a supported block
  size with astc. An undefined quality, bitrate or block size stands for its default.
\<close>

definition validOptions :: "options \<Rightarrow> bool" where
  "validOptions opts \<longleftrightarrow>
     (case format opts of
        None \<Rightarrow> False
      | Some fmt \<Rightarrow>
          fmt \<in> set formats
          \<and> 0 \<le> defaultValue (quality opts) 5 \<and> defaultValue (quality opts) 5 \<le> 10
          \<and> (fmt = ''pvrtc1'' \<or> fmt = ''pvrtc2'' \<longrightarrow>
                defaultValue (bitrate opts) 2 = 2 \<or> defaultValue (bitrate opts) 2 = 4)
          \<and> (fmt = ''astc'' \<longrightarrow> defaultValue (blockSize opts) ''8x8'' \<in> set astcBlockSizes))"

text \<open>
  The call throws a \<open>DeveloperError\<close> before the loop over the images: no promise is
  pushed and none is returned.
\<close>

definition rejectsOptions :: "call_result \<Rightarrow> bool" where
  "rejectsOptions r \<longleftrightarrow>
     (\<exists>msg. thrown r = Some (DeveloperError msg)) \<and> started r = [] \<and> returned r = None"

text \<open>Line 139: the image takes the path through its decoded pixels.\<close>

definition needsRawImage :: "policy \<Rightarrow> image \<Rightarrow> bool" where
  "needsRawImage pol img \<longleftrightarrow>
     resizeToPowerOfTwo pol \<or> imageChanged img
     \<or> extension img \<notin> set (defaultValue (inputExtensions pol) [])"

text \<open>
  What the proofs use of the arithmetic of doubles: rounding to the nearest double keeps
  the sign and, for a result up to \<open>2^1023\<close>, changes it by at most the fraction \<open>2^-53\<close> of
  its size or, for a result in the subnormal range, by at most \<open>2^-1075\<close>.
\<close>

definition roundsToNearest :: "(real \<Rightarrow> real) \<Rightarrow> bool" where
  "roundsToNearest rnd \<longleftrightarrow>
     (\<forall>x. 0 \<le> x \<longrightarrow> 0 \<le> rnd x)
     \<and> (\<forall>x. \<bar>x\<bar> \<le> 2 ^ 1023 \<longrightarrow> \<bar>rnd x - x\<bar> \<le> \<bar>x\<bar> / 2 ^ 53 + 1 / 2 ^ 1075)"

text \<open>
  A promise that already holds an output extension holds the one that \<open>compressFile\<close>
  computes from the options of its task.
\<close>

fun promise_extension :: "promise \<Rightarrow> string option" where
  "promise_extension (Process c outputPath ext) = Some ext"
| "promise_extension (ReadFile outputPath ext) = Some ext"
| "promise_extension (Fulfilled c) = Some (c_extension c)"
| "promise_extension p = None"

definition task_ok :: "string \<Rightarrow> task \<Rightarrow> bool" where
  "task_ok fmt t \<longleftrightarrow>
     co_format (t_options t) = fmt
     \<and> (case promise_extension (t_promise t) of
           None \<Rightarrow> True
         | Some ext \<Rightarrow> ext = outputExtension (t_options t))"

text \<open>A host, two external images and an embedded one, for the examples.\<close>

definition exampleHost :: host where
  "exampleHost =
     \<lparr>tmpdir = ''/tmp'', compressToolDirectory = ''/bin'', cpuCount = 4,
      uuid_v4 = (\<lambda>n. replicate (Suc n) (CHR ''u'')), roundDouble = (\<lambda>x. x)\<rparr>"

definition examplePng :: "path \<Rightarrow> int \<Rightarrow> int \<Rightarrow> image" where
  "examplePng p w h =
     \<lparr>absolutePath = Some p,
      jimpImage = Some \<lparr>bitmap_width = w, bitmap_height = h, bitmap_data = Decoded [1, 2, 3]\<rparr>,
      source = [137, 80, 78, 71], img_transparent = False, extension = ''.png'',
      imageChanged = False\<rparr>"

definition exampleGif :: image where
  "exampleGif =
     \<lparr>absolutePath = Some ''logo.gif'', jimpImage = None, source = [71, 73, 70],
      img_transparent = False, extension = ''.gif'', imageChanged = False\<rparr>"

definition exampleOptions :: "string \<Rightarrow> options" where
  "exampleOptions fmt = empty_options\<lparr>format := Some fmt\<rparr>"

definition exampleEmbedded :: image where
  "exampleEmbedded = (examplePng [] 256 256)\<lparr>absolutePath := None\<rparr>"

text \<open>
  Modelled from the spec: \<open>Cesium.PixelFormat\<close> is not part of the sources. For the
  examples it is cut down to the formats RGB (\<open>0x1907\<close>), RGBA (\<open>0x1908\<close>) and the compressed
  format DXT1 (\<open>0x83F0\<close>), whose level 0 holds
  \<open>floor((w+3)/4) * floor((h+3)/4) * bytesPerBlock\<close> bytes with blocks of 8 bytes.
\<close>

definition examplePixelFormat :: pixelFormat where
  "examplePixelFormat =
     \<lparr>pf_RGB = 0x1907, pf_RGBA = 0x1908,
      pf_validate = (\<lambda>f. f = 0x1907 \<or> f = 0x1908 \<or> f = 0x83F0),
      pf_isCompressedFormat = (\<lambda>f. f = 0x83F0),
      pf_compressedTextureSize = (\<lambda>f w h. ((w + 3) div 4) * ((h + 3) div 4) * 8)\<rparr>"

text \<open>
  The header of a little-endian KTX file without metadata, for a DXT1 texture of the
  given size and number of mipmap levels, and a file of 4 by 4 pixels with three levels,
  each stored as its size followed by its 8 bytes.
\<close>

definition exampleHeader :: "byte \<Rightarrow> byte \<Rightarrow> byte \<Rightarrow> byte list" where
  "exampleHeader w h levels =
     fileIdentifier @ [1, 2, 3, 4] @ [0, 0, 0, 0] @ [1, 0, 0, 0] @ [0, 0, 0, 0]
       @ [0xF0, 0x83, 0, 0] @ [0x07, 0x19, 0, 0] @ [w, 0, 0, 0] @ [h, 0, 0, 0] @ [0, 0, 0, 0]
       @ [0, 0, 0, 0] @ [1, 0, 0, 0] @ [levels, 0, 0, 0] @ [0, 0, 0, 0]"

definition exampleLevel0 :: "byte list" where
  "exampleLevel0 = [0x10, 0x11, 0x12, 0x13, 0x14, 0x15, 0x16, 0x17]"

definition exampleKTX :: "byte list" where
  "exampleKTX =
     exampleHeader 4 4 3
       @ [8, 0, 0, 0] @ exampleLevel0
       @ [8, 0, 0, 0] @ [0x20, 0x21, 0x22, 0x23, 0x24, 0x25, 0x26, 0x27]
       @ [8, 0, 0, 0] @ [0x30, 0x31, 0x32, 0x33, 0x34, 0x35, 0x36, 0x37]"

text \<open>
  The first 16 bytes of a file in big-endian byte order, and those of a PNG file, which is
  no KTX file.
\<close>

definition exampleBigEndian :: "byte list" where
  "exampleBigEndian = fileIdentifier @ [4, 3, 2, 1]"

definition exampleNoKTX :: "byte list" where
  "exampleNoKTX = [0x89, 0x50, 0x4E, 0x47, 0x0D, 0x0A, 0x1A, 0x0A, 0, 0, 0, 0x0D, 0x49, 0x48,
     0x44, 0x52]"

text \<open>
  The header fields by name: the field number \<open>i\<close> after the identifier, read where the
  \<open>DataView\<close> of \<open>parseKTX\<close> reads it.
\<close>

definition headerField :: "ktx_data \<Rightarrow> nat \<Rightarrow> nat" where
  "headerField data i =
     (case data of
        ArrayBuffer b \<Rightarrow> u32 b (12 + 4 * i)
      | View b off len \<Rightarrow> u32 b (off + 12 + 4 * i))"

section \<open>Properties of the texture compression\<close>

subsection \<open>The previous power of two\<close>















lemma isPowerOfTwo_power: "isPowerOfTwo (2 ^ k)"
proof -
  have "(2::int) ^ k AND (2 ^ k - 1) = 0"
    by (rule bit_eqI) (auto simp add: bit_and_iff bit_exp_iff bit_mask_iff
        mask_eq_exp_minus_1 [symmetric])
  then show ?thesis by (simp add: isPowerOfTwo_def)
qed



text \<open>
  From \<open>2^31\<close> on the 32-bit value of the number is negative and the result is 0.
\<close>

lemma previousPowerOfTwo_beyond: "previousPowerOfTwo (2 ^ 31) = 0"
  by (simp add: previousPowerOfTwo_def ToInt32_def)

subsection \<open>Validation of the options\<close>

lemma throw_fields [simp]:
  "thrown (throw e opts imgs) = Some e" "options_after (throw e opts imgs) = opts"
  "images_after (throw e opts imgs) = imgs" "started (throw e opts imgs) = []"
  "returned (throw e opts imgs) = None"
  by (simp_all add: throw_def)

lemma rejectsOptions_throw [simp]: "rejectsOptions (throw (DeveloperError m) opts imgs)"
  by (simp add: rejectsOptions_def)

lemma setDefaults_fields [simp]:
  "quality (setDefaults opts) = Some (defaultValue (quality opts) 5)"
  "bitrate (setDefaults opts) = Some (defaultValue (bitrate opts) 2)"
  "blockSize (setDefaults opts) = Some (defaultValue (blockSize opts) ''8x8'')"
  "alphaBit (setDefaults opts) = Some (defaultValue (alphaBit opts) False)"
  "format (setDefaults opts) = format opts"
  "transparent (setDefaults opts) = transparent opts"
  "others (setDefaults opts) = others opts"
  by (simp_all add: setDefaults_def Let_def)

lemma defaultValue_simps [simp]:
  "defaultValue None b = b" "defaultValue (Some a) b = a"
  by (simp_all add: defaultValue_def)

lemma compressTextures_invalid:
  assumes "\<not> validOptions opts"
  shows "rejectsOptions (compressTextures h gltf0 (Some opts))"
proof (cases gltf0)
  case None
  then show ?thesis by (simp add: compressTextures_def)
next
  case (Some g)
  show ?thesis
  proof (cases "format opts")
    case None
    with Some show ?thesis by (simp add: compressTextures_def)
  next
    case fmt: (Some fmt)
    show ?thesis
    proof (cases "fmt \<in> set formats")
      case False
      with Some fmt show ?thesis by (simp add: compressTextures_def)
    next
      case True
      with assms fmt have
        "defaultValue (quality opts) 5 < 0 \<or> defaultValue (quality opts) 5 > 10
         \<or> ((fmt = ''pvrtc1'' \<or> fmt = ''pvrtc2'') \<and> defaultValue (bitrate opts) 2 \<noteq> 2
              \<and> defaultValue (bitrate opts) 2 \<noteq> 4)
         \<or> (fmt = ''astc'' \<and> defaultValue (blockSize opts) ''8x8'' \<notin> set astcBlockSizes)"
        by (auto simp add: validOptions_def)
      with Some fmt True show ?thesis
        by (auto simp add: compressTextures_def Let_def)
    qed
  qed
qed


text \<open>
  Claim C4. Whenever the format is not one of the 11 supported names, or the quality is
  below 0 or above 10, or the format is pvrtc1 or pvrtc2 and the bitrate is neither 2 nor
  4, or the format is astc and the block size is not one of the 14 listed, the call throws
  a \<open>DeveloperError\<close> synchronously: no promise of an image has been created and no
  promise is returned, so no directory is ensured and no file is written.
\<close>

theorem compressTextures_rejects_invalid_options:
  assumes "format opts \<notin> Some ` set formats
     \<or> (\<exists>q. quality opts = Some q \<and> (q < 0 \<or> 10 < q))
     \<or> (format opts \<in> {Some ''pvrtc1'', Some ''pvrtc2''}
          \<and> (\<exists>b. bitrate opts = Some b \<and> b \<noteq> 2 \<and> b \<noteq> 4))
     \<or> (format opts = Some ''astc'' \<and> (\<exists>s. blockSize opts = Some s \<and> s \<notin> set astcBlockSizes))"
  shows "(\<exists>msg. thrown (compressTextures h gltf0 (Some opts)) = Some (DeveloperError msg))
     \<and> started (compressTextures h gltf0 (Some opts)) = []
     \<and> returned (compressTextures h gltf0 (Some opts)) = None"
proof -
  have "\<not> validOptions opts"
    using assms by (auto simp add: validOptions_def split: option.splits)
  then have "rejectsOptions (compressTextures h gltf0 (Some opts))"
    by (rule compressTextures_invalid)
  then show ?thesis by (simp add: rejectsOptions_def)
qed

lemma in_formats [simp]:
  "''etc1'' \<in> set formats" "''pvrtc1'' \<in> set formats" "''astc'' \<in> set formats"
  "''dxt1'' \<in> set formats" "''crunch-dxt1'' \<in> set formats"
  "''invalid-format'' \<notin> set formats"
  by (simp_all add: formats_def)

theorem compressTextures_rejects_invalid_options_witness:
  "(\<exists>msg. thrown (compressTextures exampleHost (Some \<lparr>images = []\<rparr>)
        (Some ((exampleOptions ''etc1'')\<lparr>quality := Some 11\<rparr>))) = Some (DeveloperError msg))
   \<and> started (compressTextures exampleHost (Some \<lparr>images = []\<rparr>)
        (Some ((exampleOptions ''etc1'')\<lparr>quality := Some 11\<rparr>))) = []
   \<and> returned (compressTextures exampleHost (Some \<lparr>images = []\<rparr>)
        (Some ((exampleOptions ''etc1'')\<lparr>quality := Some 11\<rparr>))) = None
   \<and> (\<exists>msg. thrown (compressTextures exampleHost (Some \<lparr>images = []\<rparr>)
        (Some ((exampleOptions ''pvrtc1'')\<lparr>bitrate := Some 3\<rparr>))) = Some (DeveloperError msg))
   \<and> (\<exists>msg. thrown (compressTextures exampleHost (Some \<lparr>images = []\<rparr>)
        (Some ((exampleOptions ''astc'')\<lparr>blockSize := Some ''1x1''\<rparr>))) = Some (DeveloperError msg))
   \<and> (\<exists>msg. thrown (compressTextures exampleHost (Some \<lparr>images = []\<rparr>)
        (Some (exampleOptions ''invalid-format''))) = Some (DeveloperError msg))"
  using
    compressTextures_rejects_invalid_options [of "(exampleOptions ''etc1'')\<lparr>quality := Some 11\<rparr>"
      exampleHost "Some \<lparr>images = []\<rparr>"]
    compressTextures_rejects_invalid_options [of "(exampleOptions ''pvrtc1'')\<lparr>bitrate := Some 3\<rparr>"
      exampleHost "Some \<lparr>images = []\<rparr>"]
    compressTextures_rejects_invalid_options [of "(exampleOptions ''astc'')\<lparr>blockSize := Some ''1x1''\<rparr>"
      exampleHost "Some \<lparr>images = []\<rparr>"]
    compressTextures_rejects_invalid_options [of "exampleOptions ''invalid-format''"
      exampleHost "Some \<lparr>images = []\<rparr>"]
  by (simp add: exampleOptions_def empty_options_def astcBlockSizes_def
      inj_image_mem_iff [OF inj_Some])

subsection \<open>The defaults in the options object\<close>

text \<open>
  Claim C9 as stated fails: with an unsupported format the call throws at line 67, before
  the defaults are written at lines 71 to 74, and the caller finds the options object as it
  was, without a quality.
\<close>

theorem defaults_not_written_counterexample:
  "options_after (compressTextures exampleHost (Some \<lparr>images = []\<rparr>)
       (Some (exampleOptions ''invalid-format''))) = exampleOptions ''invalid-format''
   \<and> quality (options_after (compressTextures exampleHost (Some \<lparr>images = []\<rparr>)
       (Some (exampleOptions ''invalid-format'')))) = None"
  by (simp add: compressTextures_def exampleOptions_def empty_options_def)

lemma options_after_valid_format:
  assumes "format opts = Some fmt" and "fmt \<in> set formats"
  shows "options_after (compressTextures h (Some g) (Some opts)) = setDefaults opts"
  using assms
  by (simp add: compressTextures_def Let_def getTempDirectory_def
      split: option.splits prod.splits)

text \<open>Without a \<open>gltf\<close> or a supported format the options object stays as it was.\<close>

lemma options_after_otherwise:
  assumes "gltf0 = None \<or> format opts \<notin> Some ` set formats"
  shows "options_after (compressTextures h gltf0 (Some opts)) = opts"
  using assms
  by (auto simp add: compressTextures_def Let_def split: option.splits)

text \<open>
  Claim C9, amended. When \<open>gltf\<close> is defined and the format is one of the 11 supported
  names, the call writes the defaults 5, 2.0, "8x8" and false into the options object of
  the caller for each of quality, bitrate, blockSize and alphaBit that is undefined, keeps
  those that are defined, and leaves every other property unchanged; this holds whether or
  not a later check of quality, bitrate or block size throws. When \<open>gltf\<close> is undefined or
  the format is missing or not supported, the call leaves the options object as it was.
\<close>

theorem compressTextures_writes_defaults:
  "(format opts = Some fmt \<and> fmt \<in> set formats \<longrightarrow>
      quality (options_after (compressTextures h (Some g) (Some opts)))
           = Some (case quality opts of None \<Rightarrow> 5 | Some q \<Rightarrow> q)
     \<and> bitrate (options_after (compressTextures h (Some g) (Some opts)))
           = Some (case bitrate opts of None \<Rightarrow> 2 | Some b \<Rightarrow> b)
     \<and> blockSize (options_after (compressTextures h (Some g) (Some opts)))
           = Some (case blockSize opts of None \<Rightarrow> ''8x8'' | Some s \<Rightarrow> s)
     \<and> alphaBit (options_after (compressTextures h (Some g) (Some opts)))
           = Some (case alphaBit opts of None \<Rightarrow> False | Some a \<Rightarrow> a)
     \<and> format (options_after (compressTextures h (Some g) (Some opts))) = format opts
     \<and> transparent (options_after (compressTextures h (Some g) (Some opts))) = transparent opts
     \<and> others (options_after (compressTextures h (Some g) (Some opts))) = others opts)
   \<and> (gltf0 = None \<or> format opts \<notin> Some ` set formats \<longrightarrow>
        options_after (compressTextures h gltf0 (Some opts)) = opts)"
proof (intro conjI impI)
  assume "gltf0 = None \<or> format opts \<notin> Some ` set formats"
  then show "options_after (compressTextures h gltf0 (Some opts)) = opts"
    by (rule options_after_otherwise)
qed (simp_all add: options_after_valid_format defaultValue_def)

theorem compressTextures_writes_defaults_witness:
  "format (exampleOptions ''etc1'') = Some ''etc1'' \<and> ''etc1'' \<in> set formats
   \<and> quality (options_after (compressTextures exampleHost (Some \<lparr>images = []\<rparr>)
        (Some (exampleOptions ''etc1'')))) = Some 5
   \<and> bitrate (options_after (compressTextures exampleHost (Some \<lparr>images = []\<rparr>)
        (Some (exampleOptions ''etc1'')))) = Some 2
   \<and> blockSize (options_after (compressTextures exampleHost (Some \<lparr>images = []\<rparr>)
        (Some (exampleOptions ''etc1'')))) = Some ''8x8''
   \<and> alphaBit (options_after (compressTextures exampleHost (Some \<lparr>images = []\<rparr>)
        (Some (exampleOptions ''etc1'')))) = Some False
   \<and> options_after (compressTextures exampleHost None (Some (exampleOptions ''etc1'')))
        = exampleOptions ''etc1''"
  using compressTextures_writes_defaults [of "exampleOptions ''etc1''" "''etc1''" exampleHost
      "\<lparr>images = []\<rparr>" None]
  by (simp add: exampleOptions_def empty_options_def)

subsection \<open>The loop over the images\<close>

lemma policy_defined:
  assumes "fmt \<in> set formats"
  shows "\<exists>exts cf. inputExtensions (choosePolicy fmt) = Some exts
           \<and> compressTool (choosePolicy fmt) = Some cf"
  using assms by (auto simp add: formats_def choosePolicy_def)

lemma compressTextures_valid:
  assumes "validOptions opts" and "format opts = Some fmt"
    and "inputExtensions (choosePolicy fmt) = Some exts"
    and "compressTool (choosePolicy fmt) = Some cf"
  shows "compressTextures h (Some g) (Some opts) =
    (case startImages h fmt exts cf (resizeToPowerOfTwo (choosePolicy fmt)) (setDefaults opts)
            (path_join (tmpdir h) (uuid_v4 h 0)) (images g) (Suc 0) [] [] of
       (Some e, imgs, ts, k') \<Rightarrow>
         \<lparr>thrown = Some e, options_after = setDefaults opts, images_after = imgs,
          started = ts, returned = None\<rparr>
     | (None, imgs, ts, k') \<Rightarrow>
         \<lparr>thrown = None, options_after = setDefaults opts, images_after = imgs,
          started = ts,
          returned = Some
            \<lparr>b_tool = cf, b_tempDirectory = path_join (tmpdir h) (uuid_v4 h 0),
             b_dirExists = False, b_images = imgs, b_tasks = ts,
             b_nextId = k', b_ensureDir = InFlight,
             b_remove = NotStarted, b_removeCalls = 0,
             b_result = Pending\<rparr>\<rparr>)"
  using assms
  by (auto simp add: compressTextures_def validOptions_def Let_def getTempDirectory_def
      split: option.splits)

lemma startImage_throws:
  assumes "needsRawImage \<lparr>inputExtensions = Some exts, compressTool = Some cf,
      resizeToPowerOfTwo = resizeP\<rparr> (snd x)" and "jimpImage (snd x) = None"
  shows "startImage h fmt exts cf resizeP opts td k x
           = Inl (DeveloperError (unsupportedInputMessage fmt))"
  using assms by (auto simp add: startImage_def needsRawImage_def Let_def)

lemma startImage_starts:
  assumes "\<not> (needsRawImage \<lparr>inputExtensions = Some exts, compressTool = Some cf,
      resizeToPowerOfTwo = resizeP\<rparr> (snd x) \<and> jimpImage (snd x) = None)"
  shows "\<exists>x' t k'. startImage h fmt exts cf resizeP opts td k x = Inr (x', t, k')
           \<and> t_imageId t = fst x"
  using assms
  by (auto simp add: startImage_def needsRawImage_def Let_def split: option.splits prod.splits)

lemma startImages_prefix:
  assumes "\<forall>x\<in>set xs. \<not> (needsRawImage \<lparr>inputExtensions = Some exts, compressTool = Some cf,
      resizeToPowerOfTwo = resizeP\<rparr> (snd x) \<and> jimpImage (snd x) = None)"
  shows "\<exists>imgs' ts' k'. startImages h fmt exts cf resizeP opts td (xs @ rest) k imgs ts
            = startImages h fmt exts cf resizeP opts td rest k' (imgs @ imgs') (ts @ ts')
           \<and> map t_imageId ts' = map fst xs \<and> length imgs' = length xs"
  using assms
proof (induction xs arbitrary: k imgs ts)
  case Nil
  show ?case by (intro exI [of _ "[]"] exI [of _ k]) simp
next
  case (Cons x xs)
  from Cons.prems obtain x' t k1 where
    s: "startImage h fmt exts cf resizeP opts td k x = Inr (x', t, k1)" "t_imageId t = fst x"
    using startImage_starts [of exts cf resizeP x h fmt opts td k] by auto
  from Cons.prems have
    "\<forall>x\<in>set xs. \<not> (needsRawImage \<lparr>inputExtensions = Some exts, compressTool = Some cf,
      resizeToPowerOfTwo = resizeP\<rparr> (snd x) \<and> jimpImage (snd x) = None)" by simp
  from Cons.IH [OF this, of k1 "imgs @ [x']" "ts @ [t]"]
  obtain imgs' ts' k' where
    ih: "startImages h fmt exts cf resizeP opts td (xs @ rest) k1 (imgs @ [x']) (ts @ [t])
          = startImages h fmt exts cf resizeP opts td rest k' ((imgs @ [x']) @ imgs')
              ((ts @ [t]) @ ts')"
      "map t_imageId ts' = map fst xs" "length imgs' = length xs"
    by blast
  show ?case
    using s ih
    by (intro exI [of _ "x' # imgs'"] exI [of _ "t # ts'"] exI [of _ k']) simp
qed

lemma policy_eta:
  "\<lparr>inputExtensions = inputExtensions p, compressTool = compressTool p,
    resizeToPowerOfTwo = resizeToPowerOfTwo p\<rparr> = p"
  by simp

text \<open>
  Claim C7, amended. When an image needs its decoded pixels (the format asks for a resize,
  or the image was changed, or its extension is not accepted by the tool) and has none,
  \<open>compressTextures\<close> throws a \<open>DeveloperError\<close>. The failure is not kept to the image:
  the throw is synchronous, leaves the loop and ends the call. Promises have been created
  for exactly the images before it in the order of the loop, none for the image itself or
  for those after it, and no promise is returned.
\<close>

theorem unsupported_input_aborts_call:
  assumes "validOptions opts" and "format opts = Some fmt"
    and "images g = xs @ (imageId, img) # ys"
    and "\<forall>x\<in>set xs. \<not> (needsRawImage (choosePolicy fmt) (snd x) \<and> jimpImage (snd x) = None)"
    and "needsRawImage (choosePolicy fmt) img" and "jimpImage img = None"
  shows "(\<exists>msg. thrown (compressTextures h (Some g) (Some opts)) = Some (DeveloperError msg))
     \<and> map t_imageId (started (compressTextures h (Some g) (Some opts))) = map fst xs
     \<and> returned (compressTextures h (Some g) (Some opts)) = None"
proof -
  from assms(1,2) have "fmt \<in> set formats" by (simp add: validOptions_def)
  then obtain exts cf where
    pol: "inputExtensions (choosePolicy fmt) = Some exts" "compressTool (choosePolicy fmt) = Some cf"
    using policy_defined by blast
  define resizeP where "resizeP = resizeToPowerOfTwo (choosePolicy fmt)"
  have p: "choosePolicy fmt = \<lparr>inputExtensions = Some exts, compressTool = Some cf,
      resizeToPowerOfTwo = resizeP\<rparr>"
    using pol policy_eta [of "choosePolicy fmt"] by (simp add: resizeP_def)
  define td where "td = path_join (tmpdir h) (uuid_v4 h 0)"
  obtain imgs' ts' k' where
    pre: "startImages h fmt exts cf resizeP (setDefaults opts) td (xs @ (imageId, img) # ys)
            (Suc 0) [] []
          = startImages h fmt exts cf resizeP (setDefaults opts) td ((imageId, img) # ys) k'
              ([] @ imgs') ([] @ ts')"
      "map t_imageId ts' = map fst xs"
    using startImages_prefix [of xs exts cf resizeP h fmt "setDefaults opts" td
        "(imageId, img) # ys" "Suc 0" "[]" "[]"] assms(4)
    unfolding p by blast
  have "startImage h fmt exts cf resizeP (setDefaults opts) td k' (imageId, img)
          = Inl (DeveloperError (unsupportedInputMessage fmt))"
    using startImage_throws [of exts cf resizeP "(imageId, img)"] assms(5,6)
    unfolding p by simp
  then have "startImages h fmt exts cf resizeP (setDefaults opts) td (images g) (Suc 0) [] []
      = (Some (DeveloperError (unsupportedInputMessage fmt)), imgs' @ (imageId, img) # ys, ts', k')"
    using pre by (simp add: assms(3))
  then show ?thesis
    using compressTextures_valid [OF assms(1,2) pol, of h g] pre(2)
    by (simp add: resizeP_def td_def)
qed


lemma isPowerOfTwo_256: "isPowerOfTwo 256"
  using isPowerOfTwo_power [of 8] by simp

text \<open>
  Claim C7 as stated fails: the failure is not kept to the image. With a gif without
  decoded pixels before a png, the call throws at line 147 and the png, a sibling, never
  gets a task.
\<close>

theorem unsupported_input_counterexample:
  "thrown (compressTextures exampleHost
       (Some \<lparr>images = [(''gif'', exampleGif), (''png'', examplePng ''logo.png'' 256 256)]\<rparr>)
       (Some (exampleOptions ''etc1'')))
     = Some (DeveloperError (unsupportedInputMessage ''etc1''))
   \<and> started (compressTextures exampleHost
       (Some \<lparr>images = [(''gif'', exampleGif), (''png'', examplePng ''logo.png'' 256 256)]\<rparr>)
       (Some (exampleOptions ''etc1''))) = []
   \<and> returned (compressTextures exampleHost
       (Some \<lparr>images = [(''gif'', exampleGif), (''png'', examplePng ''logo.png'' 256 256)]\<rparr>)
       (Some (exampleOptions ''etc1''))) = None"
  by (simp add: compressTextures_def exampleOptions_def empty_options_def Let_def
      choosePolicy_def getTempDirectory_def startImage_def exampleGif_def)

theorem unsupported_input_aborts_call_witness:
  "validOptions (exampleOptions ''etc1'')
   \<and> needsRawImage (choosePolicy ''etc1'') exampleGif \<and> jimpImage exampleGif = None
   \<and> (\<exists>msg. thrown (compressTextures exampleHost
       (Some \<lparr>images = [(''png'', examplePng ''logo.png'' 256 256), (''gif'', exampleGif),
                         (''last'', examplePng ''last.png'' 64 64)]\<rparr>)
       (Some (exampleOptions ''etc1''))) = Some (DeveloperError msg))
   \<and> map t_imageId (started (compressTextures exampleHost
       (Some \<lparr>images = [(''png'', examplePng ''logo.png'' 256 256), (''gif'', exampleGif),
                         (''last'', examplePng ''last.png'' 64 64)]\<rparr>)
       (Some (exampleOptions ''etc1'')))) = [''png'']
   \<and> returned (compressTextures exampleHost
       (Some \<lparr>images = [(''png'', examplePng ''logo.png'' 256 256), (''gif'', exampleGif),
                         (''last'', examplePng ''last.png'' 64 64)]\<rparr>)
       (Some (exampleOptions ''etc1''))) = None"
  using unsupported_input_aborts_call [of "exampleOptions ''etc1''" "''etc1''"
      "\<lparr>images = [(''png'', examplePng ''logo.png'' 256 256), (''gif'', exampleGif),
                         (''last'', examplePng ''last.png'' 64 64)]\<rparr>"
      "[(''png'', examplePng ''logo.png'' 256 256)]" "''gif''" exampleGif
      "[(''last'', examplePng ''last.png'' 64 64)]" exampleHost]
  by (simp add: validOptions_def exampleOptions_def empty_options_def needsRawImage_def
      choosePolicy_def exampleGif_def examplePng_def)

text \<open>
  Two things that the code does on this path are no part of the statement above. The
  message of the error is built from the variable \<open>format\<close>, the compression format, where
  the test "throws when compressing external gif" of the repository expects the format of
  the image (\<open>"gif"\<close>).
\<close>

lemma unsupported_input_message:
  "thrown (compressTextures exampleHost
       (Some \<lparr>images = [(''gif'', exampleGif)]\<rparr>) (Some (exampleOptions ''etc1'')))
     = Some (DeveloperError
         (''The input image format '' @ [CHR 0x22] @ ''etc1'' @ [CHR 0x22]
            @ '' is not supported for texture compression.''))"
  by (simp add: compressTextures_def exampleOptions_def empty_options_def Let_def
      choosePolicy_def getTempDirectory_def startImage_def exampleGif_def
      unsupportedInputMessage_def)

text \<open>
  And the promises created before the throw go on, although lines 172 to 178 are never
  reached: with a png before the gif, the promise of the png waits for its PNG buffer, and
  its next step writes its input file into the temporary directory, which \<open>outputFile\<close>
  creates. No \<open>fsExtraRemove\<close> follows, since no promise was returned.
\<close>

lemma unsupported_input_leaves_task:
  "map t_promise (started (compressTextures exampleHost
       (Some \<lparr>images = [(''png'', examplePng ''logo.png'' 256 256), (''gif'', exampleGif),
                         (''last'', examplePng ''last.png'' 64 64)]\<rparr>)
       (Some (exampleOptions ''etc1''))))
     = [GetBuffer \<lparr>bitmap_width = 256, bitmap_height = 256, bitmap_data = Decoded [1, 2, 3]\<rparr>]
   \<and> react exampleHost 1 ''/tmp/u'' Etc2comp c
         (GetBuffer \<lparr>bitmap_width = 256, bitmap_height = 256, bitmap_data = Decoded [1, 2, 3]\<rparr>)
         (BufferReady (Inr buffer))
       = (WriteFile ''/tmp/u/uu.png'' buffer, 2)
   \<and> is_writing (WriteFile ''/tmp/u/uu.png'' buffer)"
  by (simp add: compressTextures_def exampleOptions_def empty_options_def Let_def
      choosePolicy_def getTempDirectory_def startImage_def exampleGif_def examplePng_def
      resizeIfNeeded_def isPowerOfTwo_256 compressJimpImage_def etc2compExtensions_def
      compressBuffer_def getTempImagePath_def exampleHost_def path_join_def)

subsection \<open>Passthrough of the original bytes\<close>

text \<open>
  Claim C1 as stated fails for etc1, etc2 and astc: \<open>resizeToPowerOfTwo\<close> alone sends the
  image through its decoded pixels at line 139. A png of 256 by 256 that was not changed
  is, under etc1, not forwarded as it is: its promise starts with \<open>getBufferAsync\<close>, the
  encoding of the decoded pixels as a new PNG.
\<close>

theorem passthrough_counterexample:
  "map t_promise (started (compressTextures exampleHost
       (Some \<lparr>images = [(''png'', examplePng ''logo.png'' 256 256)]\<rparr>)
       (Some (exampleOptions ''etc1''))))
     = [GetBuffer \<lparr>bitmap_width = 256, bitmap_height = 256, bitmap_data = Decoded [1, 2, 3]\<rparr>]
   \<and> extension (examplePng ''logo.png'' 256 256) \<in> set etc2compExtensions
   \<and> inputExtensions (choosePolicy ''etc1'') = Some etc2compExtensions
   \<and> isPowerOfTwo 256 \<and> \<not> imageChanged (examplePng ''logo.png'' 256 256)"
  by (simp add: compressTextures_def exampleOptions_def empty_options_def Let_def
      choosePolicy_def getTempDirectory_def startImage_def examplePng_def
      resizeIfNeeded_def isPowerOfTwo_256 compressJimpImage_def etc2compExtensions_def)

text \<open>
  Claim C1, amended. For an image whose extension is accepted by the tool and that was not
  changed: under the eight formats without a mandatory resize (pvrtc1, pvrtc2, dxt1, dxt3,
  dxt5, crunch-dxt1, crunch-dxt3, crunch-dxt5) the image takes the passthrough branch,
  whatever its dimensions: the tool is started on the original file, or the original
  embedded bytes are written unchanged to a temporary file with the original extension.
  Under etc1, etc2 and astc the image always takes the path through its decoded pixels:
  they are resized only when a dimension is not a power of two, and encoded as PNG in
  either case; without decoded pixels the call throws.
\<close>

theorem passthrough_without_resize:
  assumes "inputExtensions (choosePolicy fmt) = Some exts"
    and "compressTool (choosePolicy fmt) = Some cf"
    and "extension img \<in> set exts" and "\<not> imageChanged img"
  shows "(fmt \<in> {''pvrtc1'', ''pvrtc2'', ''dxt1'', ''dxt3'', ''dxt5'', ''crunch-dxt1'',
             ''crunch-dxt3'', ''crunch-dxt5''} \<longrightarrow>
          startImage h fmt exts cf (resizeToPowerOfTwo (choosePolicy fmt)) opts td k (imageId, img)
          = Inr ((imageId, img),
                 \<lparr>t_imageId = imageId, t_options = combine opts (img_transparent img),
                  t_promise =
                    (case absolutePath img of
                       Some p \<Rightarrow>
                         Process
                           (compressFunction cf h p
                              (path_join td (uuid_v4 h k
                                 @ outputExtension (combine opts (img_transparent img))))
                              (combine opts (img_transparent img)))
                           (path_join td (uuid_v4 h k
                              @ outputExtension (combine opts (img_transparent img))))
                           (outputExtension (combine opts (img_transparent img)))
                     | None \<Rightarrow>
                         WriteFile (path_join td (uuid_v4 h k @ extension img)) (source img))\<rparr>,
                 Suc k))
     \<and> (fmt \<in> {''etc1'', ''etc2'', ''astc''} \<longrightarrow>
          startImage h fmt exts cf (resizeToPowerOfTwo (choosePolicy fmt)) opts td k (imageId, img)
          = (case jimpImage img of
               None \<Rightarrow> Inl (DeveloperError (unsupportedInputMessage fmt))
             | Some j \<Rightarrow>
                 Inr ((imageId, img\<lparr>jimpImage := Some (resizeIfNeeded j)\<rparr>),
                      \<lparr>t_imageId = imageId, t_options = combine opts (img_transparent img),
                       t_promise = GetBuffer (resizeIfNeeded j)\<rparr>, k)))
     \<and> (isPowerOfTwo (bitmap_width j) \<and> isPowerOfTwo (bitmap_height j) \<longrightarrow>
          resizeIfNeeded j = j)"
proof (intro conjI impI)
  assume "isPowerOfTwo (bitmap_width j) \<and> isPowerOfTwo (bitmap_height j)"
  then show "resizeIfNeeded j = j" by (simp add: resizeIfNeeded_def)
next
  assume "fmt \<in> {''pvrtc1'', ''pvrtc2'', ''dxt1'', ''dxt3'', ''dxt5'', ''crunch-dxt1'',
             ''crunch-dxt3'', ''crunch-dxt5''}"
  then have "\<not> resizeToPowerOfTwo (choosePolicy fmt)"
    by (auto simp add: choosePolicy_def)
  with assms show "startImage h fmt exts cf (resizeToPowerOfTwo (choosePolicy fmt)) opts td k
      (imageId, img)
    = Inr ((imageId, img),
           \<lparr>t_imageId = imageId, t_options = combine opts (img_transparent img),
            t_promise =
              (case absolutePath img of
                 Some p \<Rightarrow>
                   Process
                     (compressFunction cf h p
                        (path_join td (uuid_v4 h k
                           @ outputExtension (combine opts (img_transparent img))))
                        (combine opts (img_transparent img)))
                     (path_join td (uuid_v4 h k
                        @ outputExtension (combine opts (img_transparent img))))
                     (outputExtension (combine opts (img_transparent img)))
               | None \<Rightarrow>
                   WriteFile (path_join td (uuid_v4 h k @ extension img)) (source img))\<rparr>,
           Suc k)"
    by (simp add: startImage_def Let_def compressFile_def compressBuffer_def
        getTempImagePath_def split: option.splits)
next
  assume "fmt \<in> {''etc1'', ''etc2'', ''astc''}"
  then have "resizeToPowerOfTwo (choosePolicy fmt)"
    by (auto simp add: choosePolicy_def)
  then show "startImage h fmt exts cf (resizeToPowerOfTwo (choosePolicy fmt)) opts td k
      (imageId, img)
    = (case jimpImage img of
         None \<Rightarrow> Inl (DeveloperError (unsupportedInputMessage fmt))
       | Some j \<Rightarrow>
           Inr ((imageId, img\<lparr>jimpImage := Some (resizeIfNeeded j)\<rparr>),
                \<lparr>t_imageId = imageId, t_options = combine opts (img_transparent img),
                 t_promise = GetBuffer (resizeIfNeeded j)\<rparr>, k))"
    by (simp add: startImage_def Let_def compressJimpImage_def split: option.splits)
qed

theorem passthrough_without_resize_witness:
  "inputExtensions (choosePolicy ''dxt1'') = Some crunchExtensions
   \<and> compressTool (choosePolicy ''dxt1'') = Some Crunch
   \<and> extension (examplePng ''logo.png'' 211 211) \<in> set crunchExtensions
   \<and> \<not> imageChanged (examplePng ''logo.png'' 211 211)
   \<and> startImage exampleHost ''dxt1'' crunchExtensions Crunch
        (resizeToPowerOfTwo (choosePolicy ''dxt1'')) (setDefaults (exampleOptions ''dxt1''))
        ''/tmp/u'' 1 (''png'', examplePng ''logo.png'' 211 211)
      = Inr ((''png'', examplePng ''logo.png'' 211 211),
             \<lparr>t_imageId = ''png'',
              t_options = combine (setDefaults (exampleOptions ''dxt1'')) False,
              t_promise =
                Process
                  (compressWithCrunch exampleHost ''logo.png'' ''/tmp/u/uu.ktx''
                     (combine (setDefaults (exampleOptions ''dxt1'')) False))
                  ''/tmp/u/uu.ktx'' ''.ktx''\<rparr>,
             2)
   \<and> startImage exampleHost ''etc1'' etc2compExtensions Etc2comp
        (resizeToPowerOfTwo (choosePolicy ''etc1'')) (setDefaults (exampleOptions ''etc1''))
        ''/tmp/u'' 1 (''png'', examplePng ''logo.png'' 256 256)
      = Inr ((''png'', examplePng ''logo.png'' 256 256),
             \<lparr>t_imageId = ''png'',
              t_options = combine (setDefaults (exampleOptions ''etc1'')) False,
              t_promise = GetBuffer \<lparr>bitmap_width = 256, bitmap_height = 256,
                 bitmap_data = Decoded [1, 2, 3]\<rparr>\<rparr>,
             1)"
  using
    passthrough_without_resize [of "''dxt1''" crunchExtensions Crunch
      "examplePng ''logo.png'' 211 211" exampleHost "setDefaults (exampleOptions ''dxt1'')"
      "''/tmp/u''" 1 "''png''"]
    passthrough_without_resize [of "''etc1''" etc2compExtensions Etc2comp
      "examplePng ''logo.png'' 256 256" exampleHost "setDefaults (exampleOptions ''etc1'')"
      "''/tmp/u''" 1 "''png''"]
  by (simp add: choosePolicy_def examplePng_def crunchExtensions_def etc2compExtensions_def
      exampleHost_def path_join_def outputExtension_def combine_def exampleOptions_def
      empty_options_def indexOf_def resizeIfNeeded_def isPowerOfTwo_256)

subsection \<open>The quality on the scale of the tools\<close>

lemma two_point_one_bounds: "21 / 10 \<le> two_point_one" "two_point_one \<le> 22 / 10"
  by (simp_all add: two_point_one_def)

lemma tiny_le: "(1::real) / 2 ^ 1075 \<le> 1 / 2 ^ 10"
proof -
  have "(2::real) ^ 10 \<le> 2 ^ 1075" by (rule power_increasing) simp_all
  moreover have "(0::real) < 2 ^ 10" by (rule zero_less_power) simp
  ultimately show ?thesis by (intro frac_le) simp_all
qed

lemma huge_ge: "(8::real) \<le> 2 ^ 1023"
proof -
  have "(2::real) ^ 3 \<le> 2 ^ 1023" by (rule power_increasing) simp_all
  then show ?thesis by simp
qed

lemma rounded_close:
  assumes r: "roundsToNearest rnd" and x: "0 \<le> x" "x \<le> 5"
  shows "0 \<le> rnd x" and "\<bar>rnd x - x\<bar> \<le> x / 2 ^ 53 + 1 / 2 ^ 10"
proof -
  from r have s: "\<forall>x. 0 \<le> x \<longrightarrow> 0 \<le> rnd x"
    and e: "\<forall>x. \<bar>x\<bar> \<le> 2 ^ 1023 \<longrightarrow> \<bar>rnd x - x\<bar> \<le> \<bar>x\<bar> / 2 ^ 53 + 1 / 2 ^ 1075"
    unfolding roundsToNearest_def by blast+
  from s x show "0 \<le> rnd x" by blast
  have "\<bar>x\<bar> \<le> 2 ^ 1023" using x huge_ge by linarith
  with e have "\<bar>rnd x - x\<bar> \<le> \<bar>x\<bar> / 2 ^ 53 + 1 / 2 ^ 1075" by blast
  moreover have "\<bar>x\<bar> = x" using x by simp
  ultimately show "\<bar>rnd x - x\<bar> \<le> x / 2 ^ 53 + 1 / 2 ^ 10"
    using tiny_le by linarith
qed

lemma quotient_bounds:
  assumes "0 \<le> q" and "q \<le> 10"
  shows "0 \<le> q / two_point_one" and "q / two_point_one \<le> 100 / 21"
proof -
  have pos: "0 < two_point_one" using two_point_one_bounds(1) by linarith
  show "0 \<le> q / two_point_one" using assms pos by simp
  have "q / two_point_one \<le> 10 / two_point_one"
    using assms pos by (intro divide_right_mono) simp_all
  also have "\<dots> \<le> 10 / (21 / 10)"
    using two_point_one_bounds(1) by (intro divide_left_mono) simp_all
  finally show "q / two_point_one \<le> 100 / 21" by simp
qed

lemma qualityTier_range:
  assumes r: "roundsToNearest (roundDouble h)" and q: "0 \<le> q" "q \<le> 10"
  shows "0 \<le> qualityTier h q" and "qualityTier h q \<le> 4"
proof -
  define x where "x = q / two_point_one"
  have x: "0 \<le> x" "x \<le> 100 / 21" using quotient_bounds [OF q] by (simp_all add: x_def)
  then have x5: "x \<le> 5" by simp
  have nonneg: "0 \<le> roundDouble h x" using rounded_close(1) [OF r x(1) x5] .
  have close: "\<bar>roundDouble h x - x\<bar> \<le> x / 2 ^ 53 + 1 / 2 ^ 10"
    using rounded_close(2) [OF r x(1) x5] .
  have "x / 2 ^ 53 \<le> x / 2 ^ 10"
  proof -
    have "(2::real) ^ 10 \<le> 2 ^ 53" by (rule power_increasing) simp_all
    then show ?thesis using x(1) by (intro divide_left_mono) simp_all
  qed
  then have "x / 2 ^ 53 \<le> (100 / 21) / 2 ^ 10"
    using x(2) by (simp add: field_simps)
  with close x(2) have "roundDouble h x < 5" by (simp add: abs_le_iff)
  then show "qualityTier h q \<le> 4"
    by (simp add: qualityTier_def x_def [symmetric] floor_le_iff)
  show "0 \<le> qualityTier h q"
    using nonneg by (simp add: qualityTier_def x_def [symmetric])
qed

lemma qualityTier_0:
  assumes r: "roundsToNearest (roundDouble h)"
  shows "qualityTier h 0 = 0"
proof -
  have "0 \<le> roundDouble h 0" using rounded_close(1) [OF r, of 0] by simp
  moreover have "\<bar>roundDouble h 0 - 0\<bar> \<le> 0 / 2 ^ 53 + 1 / 2 ^ 10"
    using rounded_close(2) [OF r, of 0] by simp
  then have "roundDouble h 0 < 1" by simp
  ultimately show ?thesis by (simp add: qualityTier_def floor_eq_iff)
qed

lemma qualityTier_10:
  assumes r: "roundsToNearest (roundDouble h)"
  shows "qualityTier h 10 = 4"
proof -
  define x where "x = 10 / two_point_one"
  have pos: "0 < two_point_one" using two_point_one_bounds(1) by linarith
  have hi: "x \<le> 100 / 21" and x0: "0 \<le> x"
    using quotient_bounds [of 10] by (simp_all add: x_def)
  have "10 / (22 / 10) \<le> 10 / two_point_one"
    using two_point_one_bounds(2) pos by (intro divide_left_mono) simp_all
  then have lo: "50 / 11 \<le> x" by (simp add: x_def)
  have x5: "x \<le> 5" using hi by simp
  have close: "\<bar>roundDouble h x - x\<bar> \<le> x / 2 ^ 53 + 1 / 2 ^ 10"
    using rounded_close(2) [OF r x0 x5] .
  have "x / 2 ^ 53 \<le> x / 2 ^ 10"
  proof -
    have "(2::real) ^ 10 \<le> 2 ^ 53" by (rule power_increasing) simp_all
    then show ?thesis using x0 by (intro divide_left_mono) simp_all
  qed
  then have small: "x / 2 ^ 53 \<le> (100 / 21) / 2 ^ 10"
    using hi by (simp add: field_simps)
  from close small hi lo have "4 \<le> roundDouble h x" "roundDouble h x < 5"
    by (simp_all add: abs_le_iff)
  then show ?thesis by (simp add: qualityTier_def x_def [symmetric] floor_eq_iff)
qed

lemma js_index_five:
  assumes "length xs = 5" and "0 \<le> i" and "i \<le> 4"
  shows "\<exists>s. js_index xs i = Some s"
  using assms by (simp add: js_index_def)

text \<open>
  Claim C10. For every quality from 0 to 10, \<open>Math.floor(quality / 2.1)\<close> is one of 0, 1,
  2, 3, 4, so the lookup in each of the three tables of five quality names yields an entry;
  quality 0 gives 0 and quality 10 gives 4. The division is the one of doubles: the exact
  quotient by the double \<open>2.1\<close>, rounded to the nearest double.
\<close>

theorem quality_tier_in_table:
  assumes "roundsToNearest (roundDouble h)" and "0 \<le> q" and "q \<le> 10"
  shows "qualityTier h q \<in> {0, 1, 2, 3, 4}
     \<and> (\<exists>s. js_index pvrtcQualityOptions (qualityTier h q) = Some s)
     \<and> (\<exists>s. js_index dxtQualityOptions (qualityTier h q) = Some s)
     \<and> (\<exists>s. js_index astcQualityOptions (qualityTier h q) = Some s)
     \<and> qualityTier h 0 = 0 \<and> qualityTier h 10 = 4"
proof -
  have range: "0 \<le> qualityTier h q" "qualityTier h q \<le> 4"
    using qualityTier_range [OF assms] .
  then have "qualityTier h q \<in> {0, 1, 2, 3, 4}" by auto
  moreover have "\<exists>s. js_index pvrtcQualityOptions (qualityTier h q) = Some s"
    using range by (intro js_index_five) (simp_all add: pvrtcQualityOptions_def)
  moreover have "\<exists>s. js_index dxtQualityOptions (qualityTier h q) = Some s"
    using range by (intro js_index_five) (simp_all add: dxtQualityOptions_def)
  moreover have "\<exists>s. js_index astcQualityOptions (qualityTier h q) = Some s"
    using range by (intro js_index_five) (simp_all add: astcQualityOptions_def)
  ultimately show ?thesis
    using qualityTier_0 [OF assms(1)] qualityTier_10 [OF assms(1)] by simp
qed

text \<open>Exact arithmetic is within the bounds asked of the rounding.\<close>

lemma exact_roundsToNearest: "roundsToNearest (\<lambda>x. x)"
  unfolding roundsToNearest_def
proof (intro conjI allI impI)
  fix x :: real
  have "(0::real) \<le> 1 / 2 ^ 1075" by (intro divide_nonneg_nonneg zero_le_power) simp_all
  moreover have "0 \<le> \<bar>x\<bar> / 2 ^ 53" by (intro divide_nonneg_nonneg zero_le_power) simp_all
  ultimately show "\<bar>x - x\<bar> \<le> \<bar>x\<bar> / 2 ^ 53 + 1 / 2 ^ 1075" by simp
qed simp

theorem quality_tier_in_table_witness:
  "roundsToNearest (roundDouble exampleHost) \<and> (0::real) \<le> 5 \<and> (5::real) \<le> 10
   \<and> qualityTier exampleHost 5 \<in> {0, 1, 2, 3, 4}
   \<and> (\<exists>s. js_index pvrtcQualityOptions (qualityTier exampleHost 5) = Some s)
   \<and> (\<exists>s. js_index dxtQualityOptions (qualityTier exampleHost 5) = Some s)
   \<and> (\<exists>s. js_index astcQualityOptions (qualityTier exampleHost 5) = Some s)
   \<and> qualityTier exampleHost 0 = 0 \<and> qualityTier exampleHost 10 = 4"
proof -
  have r: "roundsToNearest (roundDouble exampleHost)"
    using exact_roundsToNearest by (simp add: exampleHost_def)
  show ?thesis
    using quality_tier_in_table [of exampleHost 5] r by simp
qed

lemma qualityTier_example: "qualityTier exampleHost 5 = 2"
  by (simp add: qualityTier_def exampleHost_def two_point_one_def floor_eq_iff)

subsection \<open>The extension of the compressed result\<close>

lemma outputExtension_formats:
  assumes "fmt \<in> set formats" and "co_format o' = fmt"
  shows "outputExtension o' =
    (if fmt \<in> {''crunch-dxt1'', ''crunch-dxt3'', ''crunch-dxt5''} then ''.crn'' else ''.ktx'')"
  using assms by (auto simp add: formats_def outputExtension_def indexOf_def)

lemma returned_valid:
  assumes "returned (compressTextures h gltf0 (Some opts)) = Some b"
  shows "validOptions opts"
proof (rule ccontr)
  assume "\<not> validOptions opts"
  then have "rejectsOptions (compressTextures h gltf0 (Some opts))"
    by (rule compressTextures_invalid)
  with assms show False by (simp add: rejectsOptions_def)
qed

lemma co_format_combine:
  assumes "format opts = Some fmt"
  shows "co_format (combine opts tr) = fmt"
  using assms by (simp add: combine_def)

lemma startImage_task_ok:
  assumes "startImage h fmt exts cf rp opts td k x = Inr (x', t, k')"
    and "format opts = Some fmt"
  shows "task_ok fmt t"
  using assms
  by (auto simp add: startImage_def Let_def task_ok_def co_format_combine compressFile_def
      compressBuffer_def compressJimpImage_def getTempImagePath_def
      split: if_splits option.splits prod.splits)

lemma startImages_tasks_ok:
  assumes "startImages h fmt exts cf rp opts td xs k imgs ts = (r, imgs', ts', k')"
    and "format opts = Some fmt" and "\<forall>t\<in>set ts. task_ok fmt t"
  shows "\<forall>t\<in>set ts'. task_ok fmt t"
  using assms
proof (induction xs arbitrary: k imgs ts)
  case Nil
  then show ?case by simp
next
  case (Cons x xs)
  show ?case
  proof (cases "startImage h fmt exts cf rp opts td k x")
    case (Inl e)
    with Cons.prems show ?thesis by simp
  next
    case (Inr res)
    obtain x' t k1 where res: "res = (x', t, k1)" by (cases res) auto
    have "task_ok fmt t" using startImage_task_ok Inr res Cons.prems(2) by blast
    with Cons.prems(3) have ok: "\<forall>u\<in>set (ts @ [t]). task_ok fmt u" by simp
    from Cons.prems(1) Inr res
    have "startImages h fmt exts cf rp opts td xs k1 (imgs @ [x']) (ts @ [t])
            = (r, imgs', ts', k')" by simp
    from Cons.IH [OF this Cons.prems(2) ok] show ?thesis .
  qed
qed

lemma react_extension:
  assumes "react h k td cf opts p c = (p', k')"
  shows "promise_extension p' = None \<or> promise_extension p' = Some (outputExtension opts)
         \<or> promise_extension p' = promise_extension p"
  using assms
  by (induction h k td cf opts p c rule: react.induct)
     (auto simp add: compressFile_def compressBuffer_def getTempImagePath_def Let_def
       split: if_splits)

lemma react_task_ok:
  assumes "task_ok fmt t" and "react h k td cf (t_options t) (t_promise t) c = (p', k')"
  shows "task_ok fmt (t\<lparr>t_promise := p'\<rparr>)"
  using assms(1) react_extension [OF assms(2)]
  by (auto simp add: task_ok_def split: option.splits)

lemma settle_tasks [simp]: "b_tasks (settle b) = b_tasks b"
  by (simp add: settle_def split: option.splits)

lemma step_tasks_ok:
  assumes "\<forall>t\<in>set (b_tasks b). task_ok fmt t"
  shows "\<forall>t\<in>set (b_tasks (step h b ev)). task_ok fmt t"
proof (cases ev)
  case (Task i c)
  show ?thesis
  proof (cases "i < length (b_tasks b)")
    case True
    obtain p' k' where
      r: "react h (b_nextId b) (b_tempDirectory b) (b_tool b) (t_options (b_tasks b ! i))
            (t_promise (b_tasks b ! i)) c = (p', k')"
      by (cases "react h (b_nextId b) (b_tempDirectory b) (b_tool b) (t_options (b_tasks b ! i))
            (t_promise (b_tasks b ! i)) c") auto
    have "task_ok fmt (b_tasks b ! i)" using assms True by simp
    then have ok: "task_ok fmt ((b_tasks b ! i)\<lparr>t_promise := p'\<rparr>)"
      using react_task_ok r by blast
    have tasks: "b_tasks (step h b ev) = (b_tasks b)[i := (b_tasks b ! i)\<lparr>t_promise := p'\<rparr>]"
      using Task True r by (simp add: step_def Let_def)
    show ?thesis
      unfolding tasks using assms ok by (auto dest!: set_update_subset_insert [THEN subsetD])
  next
    case False
    with Task assms show ?thesis by (simp add: step_def)
  qed
next
  case (DirEnsured r)
  with assms show ?thesis by (simp add: step_def split: option.splits)
next
  case (DirRemoved r)
  with assms show ?thesis by (simp add: step_def split: option.splits)
qed

lemma run_tasks_ok:
  assumes "\<forall>t\<in>set (b_tasks b). task_ok fmt t"
  shows "\<forall>t\<in>set (b_tasks (run h b evs)). task_ok fmt t"
  using assms
proof (induction evs arbitrary: b)
  case Nil
  then show ?case by (simp add: run_def)
next
  case (Cons ev evs)
  have "\<forall>t\<in>set (b_tasks (step h b ev)). task_ok fmt t"
    using step_tasks_ok Cons.prems by blast
  from Cons.IH [OF this] show ?case by (simp add: run_def)
qed

lemma returned_tasks_ok:
  assumes "returned (compressTextures h (Some g) (Some opts)) = Some b"
    and "format opts = Some fmt"
  shows "\<forall>t\<in>set (b_tasks b). task_ok fmt t"
proof -
  have v: "validOptions opts" using returned_valid assms(1) by blast
  then have "fmt \<in> set formats" using assms(2) by (simp add: validOptions_def)
  then obtain exts cf where
    pol: "inputExtensions (choosePolicy fmt) = Some exts" "compressTool (choosePolicy fmt) = Some cf"
    using policy_defined by blast
  obtain r imgs ts k' where
    s: "startImages h fmt exts cf (resizeToPowerOfTwo (choosePolicy fmt)) (setDefaults opts)
            (path_join (tmpdir h) (uuid_v4 h 0)) (images g) (Suc 0) [] [] = (r, imgs, ts, k')"
    using prod_cases4 by blast
  have f: "format (setDefaults opts) = Some fmt" using assms(2) by simp
  have ok: "\<forall>t\<in>set ts. task_ok fmt t"
    using startImages_tasks_ok [OF s f] by simp
  from assms(1) have "b_tasks b = ts"
    unfolding compressTextures_valid [OF v assms(2) pol] s
    by (cases r) auto
  with ok show ?thesis by simp
qed

text \<open>
  Claim C8. Whenever the promise of an image is fulfilled, after any sequence of events on
  a promise that \<open>compressTextures\<close> returned, the extension of the compressed result is
  \<open>.ktx\<close> for the formats pvrtc1, pvrtc2, etc1, etc2, astc, dxt1, dxt3 and dxt5, and it is
  \<open>.crn\<close>, the extension of crunch files, exactly for crunch-dxt1, crunch-dxt3 and
  crunch-dxt5.
\<close>

theorem compressed_extension:
  assumes "returned (compressTextures h (Some g) (Some opts)) = Some b"
    and "format opts = Some fmt"
    and "i < length (b_tasks (run h b evs))"
    and "t_promise (b_tasks (run h b evs) ! i) = Fulfilled c"
  shows "c_extension c =
    (if fmt \<in> {''crunch-dxt1'', ''crunch-dxt3'', ''crunch-dxt5''} then ''.crn'' else ''.ktx'')"
proof -
  have "validOptions opts" using returned_valid assms(1) by blast
  then have fmt: "fmt \<in> set formats" using assms(2) by (simp add: validOptions_def)
  have "\<forall>t\<in>set (b_tasks (run h b evs)). task_ok fmt t"
    using run_tasks_ok returned_tasks_ok [OF assms(1,2)] by blast
  then have "task_ok fmt (b_tasks (run h b evs) ! i)" using assms(3) by simp
  then have "co_format (t_options (b_tasks (run h b evs) ! i)) = fmt"
    and "c_extension c = outputExtension (t_options (b_tasks (run h b evs) ! i))"
    using assms(4) by (simp_all add: task_ok_def)
  then show ?thesis using outputExtension_formats [OF fmt] by simp
qed


lemmas batch_eval =
  compressTextures_def exampleOptions_def empty_options_def Let_def choosePolicy_def
  getTempDirectory_def startImage_def examplePng_def exampleHost_def
  compressFile_def compressBuffer_def compressJimpImage_def getTempImagePath_def
  crunchExtensions_def etc2compExtensions_def formats_def
  run_def step_def settle_def

theorem compressed_extension_witness:
  "\<exists>b. returned (compressTextures exampleHost
            (Some \<lparr>images = [(''png'', examplePng ''logo.png'' 256 256)]\<rparr>)
            (Some (exampleOptions ''crunch-dxt1''))) = Some b
     \<and> 0 < length (b_tasks (run exampleHost b
           [DirEnsured None, Task 0 (ChildExit 0), Task 0 (FileRead (Inr [1, 2, 3]))]))
     \<and> t_promise (b_tasks (run exampleHost b
           [DirEnsured None, Task 0 (ChildExit 0), Task 0 (FileRead (Inr [1, 2, 3]))]) ! 0)
         = Fulfilled \<lparr>c_buffer = [1, 2, 3], c_extension = ''.crn''\<rparr>"
proof -
  have "\<exists>b c. returned (compressTextures exampleHost
            (Some \<lparr>images = [(''png'', examplePng ''logo.png'' 256 256)]\<rparr>)
            (Some (exampleOptions ''crunch-dxt1''))) = Some b
     \<and> 0 < length (b_tasks (run exampleHost b
           [DirEnsured None, Task 0 (ChildExit 0), Task 0 (FileRead (Inr [1, 2, 3]))]))
     \<and> t_promise (b_tasks (run exampleHost b
           [DirEnsured None, Task 0 (ChildExit 0), Task 0 (FileRead (Inr [1, 2, 3]))]) ! 0)
         = Fulfilled c \<and> c_buffer c = [1, 2, 3]"
    by (simp add: batch_eval)
  then obtain b c where
    b: "returned (compressTextures exampleHost
            (Some \<lparr>images = [(''png'', examplePng ''logo.png'' 256 256)]\<rparr>)
            (Some (exampleOptions ''crunch-dxt1''))) = Some b"
    and l: "0 < length (b_tasks (run exampleHost b
           [DirEnsured None, Task 0 (ChildExit 0), Task 0 (FileRead (Inr [1, 2, 3]))]))"
    and p: "t_promise (b_tasks (run exampleHost b
           [DirEnsured None, Task 0 (ChildExit 0), Task 0 (FileRead (Inr [1, 2, 3]))]) ! 0)
         = Fulfilled c"
    and c: "c_buffer c = [1, 2, 3]"
    by blast
  have "format (exampleOptions ''crunch-dxt1'') = Some ''crunch-dxt1''"
    by (simp add: exampleOptions_def)
  from compressed_extension [OF b this l p]
  have "c_extension c = ''.crn''" by simp
  with c have "c = \<lparr>c_buffer = [1, 2, 3], c_extension = ''.crn''\<rparr>" by simp
  with b l p show ?thesis by blast
qed

subsection \<open>The removal of the temporary directory\<close>

text \<open>
  Three runs on any returned promise with the named shape. In the first the tool of the
  first image exits with code 1 while the tool of the second is still running.
\<close>

lemma race_general:
  assumes "b_ensureDir b = InFlight" and "b_result b = Pending" and "b_removeCalls b = 0"
    and "b_tasks b = [t0, t1]" and "t_promise t0 = Process c0 o0 e0"
    and "t_promise t1 = Process c1 o1 e1"
  shows "b_result (run h b [DirEnsured None, Task 0 (ChildExit 1)])
           = RejectedWith (Rejection (exitMessage 1))
     \<and> b_removeCalls (run h b [DirEnsured None, Task 0 (ChildExit 1)]) = 1
     \<and> b_dirExists (run h b [DirEnsured None, Task 0 (ChildExit 1)])
     \<and> \<not> is_settled (t_promise (b_tasks (run h b [DirEnsured None, Task 0 (ChildExit 1)]) ! 1))"
  using assms
  by (simp add: run_def step_def settle_def Let_def)

text \<open>
  In the second the removal ends before the input file of the second image is written;
  \<open>outputFile\<close> creates the directory again and nothing removes it afterwards.
\<close>

lemma leak_general:
  assumes "b_ensureDir b = InFlight" and "b_result b = Pending" and "b_removeCalls b = 0"
    and "b_tasks b = [t0, t1]" and "t_promise t0 = Process c0 o0 e0"
    and "t_promise t1 = WriteFile p1 buf"
  shows "b_result (run h b
           [DirEnsured None, Task 0 (ChildExit 1), DirRemoved None, Task 1 (FileWritten None),
            Task 1 (ChildExit 0), Task 1 (FileRead (Inr r))])
         = RejectedWith (Rejection (exitMessage 1))
     \<and> list_all (\<lambda>t. is_settled (t_promise t)) (b_tasks (run h b
           [DirEnsured None, Task 0 (ChildExit 1), DirRemoved None, Task 1 (FileWritten None),
            Task 1 (ChildExit 0), Task 1 (FileRead (Inr r))]))
     \<and> b_remove (run h b
           [DirEnsured None, Task 0 (ChildExit 1), DirRemoved None, Task 1 (FileWritten None),
            Task 1 (ChildExit 0), Task 1 (FileRead (Inr r))]) = Succeeded
     \<and> b_removeCalls (run h b
           [DirEnsured None, Task 0 (ChildExit 1), DirRemoved None, Task 1 (FileWritten None),
            Task 1 (ChildExit 0), Task 1 (FileRead (Inr r))]) = 1
     \<and> b_dirExists (run h b
           [DirEnsured None, Task 0 (ChildExit 1), DirRemoved None, Task 1 (FileWritten None),
            Task 1 (ChildExit 0), Task 1 (FileRead (Inr r))])"
  using assms
  by (simp add: run_def step_def settle_def Let_def compressFile_def getTempImagePath_def)

text \<open>In the third the only image succeeds.\<close>

lemma early_general:
  assumes "b_ensureDir b = InFlight" and "b_result b = Pending" and "b_removeCalls b = 0"
    and "b_tasks b = [t0]" and "t_promise t0 = Process c0 o0 e0"
  shows "b_result (run h b [DirEnsured None, Task 0 (ChildExit 0), Task 0 (FileRead (Inr r))])
           = Resolved
     \<and> b_remove (run h b [DirEnsured None, Task 0 (ChildExit 0), Task 0 (FileRead (Inr r))])
           = InFlight
     \<and> b_dirExists (run h b [DirEnsured None, Task 0 (ChildExit 0), Task 0 (FileRead (Inr r))])"
  using assms
  by (simp add: run_def step_def settle_def Let_def)

lemmas call_eval =
  compressTextures_def exampleOptions_def empty_options_def Let_def choosePolicy_def
  getTempDirectory_def startImage_def examplePng_def exampleEmbedded_def
  compressFile_def compressBuffer_def getTempImagePath_def crunchExtensions_def formats_def

lemma example_two_external:
  "\<exists>b t0 t1 c0 o0 e0 c1 o1 e1.
     returned (compressTextures exampleHost
        (Some \<lparr>images = [(''first'', examplePng ''first.png'' 256 256),
                          (''second'', examplePng ''second.png'' 256 256)]\<rparr>)
        (Some (exampleOptions ''dxt1''))) = Some b
     \<and> b_ensureDir b = InFlight \<and> b_result b = Pending \<and> b_removeCalls b = 0
     \<and> b_tasks b = [t0, t1] \<and> t_promise t0 = Process c0 o0 e0
     \<and> t_promise t1 = Process c1 o1 e1"
  by (simp add: call_eval)

lemma example_external_embedded:
  "\<exists>b t0 t1 c0 o0 e0 p1 buf.
     returned (compressTextures exampleHost
        (Some \<lparr>images = [(''first'', examplePng ''first.png'' 256 256),
                          (''second'', exampleEmbedded)]\<rparr>)
        (Some (exampleOptions ''dxt1''))) = Some b
     \<and> b_ensureDir b = InFlight \<and> b_result b = Pending \<and> b_removeCalls b = 0
     \<and> b_tasks b = [t0, t1] \<and> t_promise t0 = Process c0 o0 e0
     \<and> t_promise t1 = WriteFile p1 buf"
  by (simp add: call_eval)

lemma example_one_external:
  "\<exists>b t0 c0 o0 e0.
     returned (compressTextures exampleHost
        (Some \<lparr>images = [(''first'', examplePng ''first.png'' 256 256)]\<rparr>)
        (Some (exampleOptions ''dxt1''))) = Some b
     \<and> b_ensureDir b = InFlight \<and> b_result b = Pending \<and> b_removeCalls b = 0
     \<and> b_tasks b = [t0] \<and> t_promise t0 = Process c0 o0 e0"
  by (simp add: call_eval)

text \<open>
  Claim C6 asks that the temporary directory is removed once all promises of the images
  have settled and no longer exists when the result of the call is observed. The code
  does not do that. \<open>Promise.all\<close> rejects with the first rejection and the \<open>finally\<close>
  handler does not return the promise of \<open>fsExtraRemove\<close>, so:
  \<^item> with two external images under dxt1, when the tool of the first exits with code 1 the
    returned promise is rejected and \<open>fsExtraRemove\<close> is called while the promise of the
    second image is still pending and the directory exists;
  \<^item> with an external and an embedded image, the directory exists after the returned
    promise, both promises of the images and the removal have all settled;
  \<^item> with one image that succeeds, the returned promise resolves while the removal is
    still in flight and the directory exists.
\<close>

theorem removal_races_batch:
  "(\<exists>b. returned (compressTextures exampleHost
            (Some \<lparr>images = [(''first'', examplePng ''first.png'' 256 256),
                              (''second'', examplePng ''second.png'' 256 256)]\<rparr>)
            (Some (exampleOptions ''dxt1''))) = Some b
     \<and> b_result (run exampleHost b [DirEnsured None, Task 0 (ChildExit 1)])
         = RejectedWith (Rejection (exitMessage 1))
     \<and> b_removeCalls (run exampleHost b [DirEnsured None, Task 0 (ChildExit 1)]) = 1
     \<and> b_dirExists (run exampleHost b [DirEnsured None, Task 0 (ChildExit 1)])
     \<and> \<not> is_settled (t_promise
           (b_tasks (run exampleHost b [DirEnsured None, Task 0 (ChildExit 1)]) ! 1)))
   \<and> (\<exists>b. returned (compressTextures exampleHost
            (Some \<lparr>images = [(''first'', examplePng ''first.png'' 256 256),
                              (''second'', exampleEmbedded)]\<rparr>)
            (Some (exampleOptions ''dxt1''))) = Some b
     \<and> b_result (run exampleHost b
           [DirEnsured None, Task 0 (ChildExit 1), DirRemoved None, Task 1 (FileWritten None),
            Task 1 (ChildExit 0), Task 1 (FileRead (Inr [1, 2, 3]))])
         = RejectedWith (Rejection (exitMessage 1))
     \<and> list_all (\<lambda>t. is_settled (t_promise t)) (b_tasks (run exampleHost b
           [DirEnsured None, Task 0 (ChildExit 1), DirRemoved None, Task 1 (FileWritten None),
            Task 1 (ChildExit 0), Task 1 (FileRead (Inr [1, 2, 3]))]))
     \<and> b_remove (run exampleHost b
           [DirEnsured None, Task 0 (ChildExit 1), DirRemoved None, Task 1 (FileWritten None),
            Task 1 (ChildExit 0), Task 1 (FileRead (Inr [1, 2, 3]))]) = Succeeded
     \<and> b_removeCalls (run exampleHost b
           [DirEnsured None, Task 0 (ChildExit 1), DirRemoved None, Task 1 (FileWritten None),
            Task 1 (ChildExit 0), Task 1 (FileRead (Inr [1, 2, 3]))]) = 1
     \<and> b_dirExists (run exampleHost b
           [DirEnsured None, Task 0 (ChildExit 1), DirRemoved None, Task 1 (FileWritten None),
            Task 1 (ChildExit 0), Task 1 (FileRead (Inr [1, 2, 3]))]))
   \<and> (\<exists>b. returned (compressTextures exampleHost
            (Some \<lparr>images = [(''first'', examplePng ''first.png'' 256 256)]\<rparr>)
            (Some (exampleOptions ''dxt1''))) = Some b
     \<and> b_result (run exampleHost b
           [DirEnsured None, Task 0 (ChildExit 0), Task 0 (FileRead (Inr [1, 2, 3]))])
         = Resolved
     \<and> b_remove (run exampleHost b
           [DirEnsured None, Task 0 (ChildExit 0), Task 0 (FileRead (Inr [1, 2, 3]))])
         = InFlight
     \<and> b_dirExists (run exampleHost b
           [DirEnsured None, Task 0 (ChildExit 0), Task 0 (FileRead (Inr [1, 2, 3]))]))"
proof (intro conjI)
  from example_two_external obtain b t0 t1 c0 o0 e0 c1 o1 e1 where
    "returned (compressTextures exampleHost
        (Some \<lparr>images = [(''first'', examplePng ''first.png'' 256 256),
                          (''second'', examplePng ''second.png'' 256 256)]\<rparr>)
        (Some (exampleOptions ''dxt1''))) = Some b"
    and s: "b_ensureDir b = InFlight" "b_result b = Pending" "b_removeCalls b = 0"
      "b_tasks b = [t0, t1]" "t_promise t0 = Process c0 o0 e0" "t_promise t1 = Process c1 o1 e1"
    by blast
  with race_general [OF s, of exampleHost]
  show "\<exists>b. returned (compressTextures exampleHost
            (Some \<lparr>images = [(''first'', examplePng ''first.png'' 256 256),
                              (''second'', examplePng ''second.png'' 256 256)]\<rparr>)
            (Some (exampleOptions ''dxt1''))) = Some b
     \<and> b_result (run exampleHost b [DirEnsured None, Task 0 (ChildExit 1)])
         = RejectedWith (Rejection (exitMessage 1))
     \<and> b_removeCalls (run exampleHost b [DirEnsured None, Task 0 (ChildExit 1)]) = 1
     \<and> b_dirExists (run exampleHost b [DirEnsured None, Task 0 (ChildExit 1)])
     \<and> \<not> is_settled (t_promise
           (b_tasks (run exampleHost b [DirEnsured None, Task 0 (ChildExit 1)]) ! 1))"
    by blast
next
  from example_external_embedded obtain b t0 t1 c0 o0 e0 p1 buf where
    "returned (compressTextures exampleHost
        (Some \<lparr>images = [(''first'', examplePng ''first.png'' 256 256),
                          (''second'', exampleEmbedded)]\<rparr>)
        (Some (exampleOptions ''dxt1''))) = Some b"
    and s: "b_ensureDir b = InFlight" "b_result b = Pending" "b_removeCalls b = 0"
      "b_tasks b = [t0, t1]" "t_promise t0 = Process c0 o0 e0" "t_promise t1 = WriteFile p1 buf"
    by blast
  with leak_general [OF s, of exampleHost "[1, 2, 3]"]
  show "\<exists>b. returned (compressTextures exampleHost
            (Some \<lparr>images = [(''first'', examplePng ''first.png'' 256 256),
                              (''second'', exampleEmbedded)]\<rparr>)
            (Some (exampleOptions ''dxt1''))) = Some b
     \<and> b_result (run exampleHost b
           [DirEnsured None, Task 0 (ChildExit 1), DirRemoved None, Task 1 (FileWritten None),
            Task 1 (ChildExit 0), Task 1 (FileRead (Inr [1, 2, 3]))])
         = RejectedWith (Rejection (exitMessage 1))
     \<and> list_all (\<lambda>t. is_settled (t_promise t)) (b_tasks (run exampleHost b
           [DirEnsured None, Task 0 (ChildExit 1), DirRemoved None, Task 1 (FileWritten None),
            Task 1 (ChildExit 0), Task 1 (FileRead (Inr [1, 2, 3]))]))
     \<and> b_remove (run exampleHost b
           [DirEnsured None, Task 0 (ChildExit 1), DirRemoved None, Task 1 (FileWritten None),
            Task 1 (ChildExit 0), Task 1 (FileRead (Inr [1, 2, 3]))]) = Succeeded
     \<and> b_removeCalls (run exampleHost b
           [DirEnsured None, Task 0 (ChildExit 1), DirRemoved None, Task 1 (FileWritten None),
            Task 1 (ChildExit 0), Task 1 (FileRead (Inr [1, 2, 3]))]) = 1
     \<and> b_dirExists (run exampleHost b
           [DirEnsured None, Task 0 (ChildExit 1), DirRemoved None, Task 1 (FileWritten None),
            Task 1 (ChildExit 0), Task 1 (FileRead (Inr [1, 2, 3]))])"
    by blast
next
  from example_one_external obtain b t0 c0 o0 e0 where
    "returned (compressTextures exampleHost
        (Some \<lparr>images = [(''first'', examplePng ''first.png'' 256 256)]\<rparr>)
        (Some (exampleOptions ''dxt1''))) = Some b"
    and s: "b_ensureDir b = InFlight" "b_result b = Pending" "b_removeCalls b = 0"
      "b_tasks b = [t0]" "t_promise t0 = Process c0 o0 e0"
    by blast
  with early_general [OF s, of exampleHost "[1, 2, 3]"]
  show "\<exists>b. returned (compressTextures exampleHost
            (Some \<lparr>images = [(''first'', examplePng ''first.png'' 256 256)]\<rparr>)
            (Some (exampleOptions ''dxt1''))) = Some b
     \<and> b_result (run exampleHost b
           [DirEnsured None, Task 0 (ChildExit 0), Task 0 (FileRead (Inr [1, 2, 3]))])
         = Resolved
     \<and> b_remove (run exampleHost b
           [DirEnsured None, Task 0 (ChildExit 0), Task 0 (FileRead (Inr [1, 2, 3]))])
         = InFlight
     \<and> b_dirExists (run exampleHost b
           [DirEnsured None, Task 0 (ChildExit 0), Task 0 (FileRead (Inr [1, 2, 3]))])"
    by blast
qed

section \<open>Properties of the KTX parser\<close>

subsection \<open>The errors of the parser\<close>

text \<open>
  \<open>Cesium.RuntimError\<close> is undefined, so every \<open>throw new RuntimeError(...)\<close> of the parser
  raises the same \<open>TypeError\<close>, whatever the message.
\<close>

lemma new_RuntimeError_TypeError:
  "new_RuntimeError message = TypeError ''RuntimeError is not a constructor''"
  by (simp add: new_RuntimeError_def RuntimeError_def Cesium_def)

lemma length_fileIdentifier [simp]: "length fileIdentifier = 12"
  by (simp add: fileIdentifier_def)

lemma parseKTX_bad_magic:
  assumes "take 12 (contents data) \<noteq> fileIdentifier"
  shows "parseKTX pf data = Inl (TypeError ''RuntimeError is not a constructor'')"
  using assms by (simp add: parseKTX_def new_RuntimeError_TypeError)

lemma parseKTX_bad_endianness:
  assumes "take 12 (contents data) = fileIdentifier"
    and "data = ArrayBuffer b \<or> data = View b off len"
    and "(case data of ArrayBuffer b \<Rightarrow> 0 | View b off len \<Rightarrow> off) + 16 \<le> length b"
    and "headerField data 0 \<noteq> endiannessTest"
  shows "parseKTX pf data = Inl (TypeError ''RuntimeError is not a constructor'')"
  using assms
  by (auto simp add: parseKTX_def new_RuntimeError_TypeError getUint32_def headerField_def
      Let_def)

lemma validateKTX_no_RuntimeError:
  "validateKTX pf a b c d e f g h i j k t \<noteq> Inl (CesiumRuntimeError m)"
proof -
  define d' where
    "d' = (if d = 0x8051 then pf_RGB pf else if d = 0x8058 then pf_RGBA pf else d)"
  show ?thesis
    unfolding validateKTX_def Let_def d'_def [symmetric]
    by (simp add: new_RuntimeError_TypeError new_view_def split: sum.splits)
qed

lemma new_Uint8Array_no_RuntimeError:
  "new_Uint8Array data off len = Inl e \<Longrightarrow> e \<noteq> CesiumRuntimeError m"
  by (cases data) (auto simp add: new_view_def split: if_splits)

lemma parseKTX_no_RuntimeError: "parseKTX pf data \<noteq> Inl (CesiumRuntimeError m)"
  unfolding parseKTX_def Let_def
  by (auto simp add: new_RuntimeError_TypeError getUint32_def validateKTX_no_RuntimeError
      dest: new_Uint8Array_no_RuntimeError split: sum.splits)

text \<open>
  Claim C5 asks for two distinct kinds of failure: one for a buffer whose first 12 bytes are
  not the KTX identifier, another for a buffer with the identifier whose endianness field
  is not \<open>0x04030201\<close>. The two checks are the first ones and come in that order, but the
  code raises the same error for both: for the start of a PNG file and for the start of a
  big-endian KTX file (whose field reads \<open>0x01020304\<close>) the parser throws the \<open>TypeError\<close>
  of calling \<open>new\<close> on \<open>undefined\<close>, and the messages "Invalid KTX file." and "File is
  the wrong endianness." are lost.
\<close>

theorem failure_kinds_coincide:
  "parseKTX examplePixelFormat (ArrayBuffer exampleNoKTX)
     = Inl (TypeError ''RuntimeError is not a constructor'')
   \<and> parseKTX examplePixelFormat (ArrayBuffer exampleBigEndian)
     = Inl (TypeError ''RuntimeError is not a constructor'')
   \<and> take 12 exampleNoKTX \<noteq> fileIdentifier
   \<and> take 12 exampleBigEndian = fileIdentifier
   \<and> getUint32 exampleBigEndian 12 = Inr 0x01020304"
  by (simp add: parseKTX_def new_RuntimeError_TypeError exampleNoKTX_def exampleBigEndian_def
      fileIdentifier_def getUint32_def u32_def endiannessTest_def Let_def)

subsection \<open>The level 0 mipmap\<close>

lemma validateKTX_mipmapped:
  assumes "validateKTX pf glType glTypeSize glFormat f0 bf w h d ae fc levels t = Inr r"
    and "pf_isCompressedFormat pf (internalFormat r)" and "1 < levels"
  shows "bufferView r = \<lparr>v_buffer = v_buffer t, v_byteOffset = 0,
            v_length = pf_compressedTextureSize pf (internalFormat r) (width r) (height r)\<rparr>
         \<and> pf_compressedTextureSize pf (internalFormat r) (width r) (height r)
              \<le> length (v_buffer t)"
  using assms
  by (auto simp add: validateKTX_def Let_def new_view_def split: if_splits sum.splits)

lemma parseKTX_Inr:
  assumes "parseKTX pf data = Inr r"
  shows "\<exists>t. validateKTX pf (headerField data 1) (headerField data 2) (headerField data 3)
            (headerField data 4) (headerField data 5) (headerField data 6) (headerField data 7)
            (headerField data 8) (headerField data 9) (headerField data 10)
            (headerField data 11) t = Inr r
          \<and> v_buffer t = contents data"
proof (cases data)
  case (ArrayBuffer b)
  with assms show ?thesis
    by (fastforce simp add: parseKTX_def Let_def getUint32_def new_view_def sizeOfUint32_def
        headerField_def split: if_splits sum.splits)
next
  case (View b off len)
  with assms show ?thesis
    by (fastforce simp add: parseKTX_def Let_def getUint32_def sizeOfUint32_def
        headerField_def add.commute split: if_splits sum.splits)
qed

text \<open>
  Whenever the parser succeeds on a compressed format with more than one mipmap level, the
  returned view has the length of level 0, and its bytes are the first bytes of the file,
  from the identifier on: line 259 builds the view at offset 0 of \<open>texture.buffer\<close>.
\<close>

lemma parseKTX_mipmapped:
  assumes "parseKTX pf data = Inr r"
    and "pf_isCompressedFormat pf (internalFormat r)"
    and "1 < headerField data 11"
  shows "v_length (bufferView r)
           = pf_compressedTextureSize pf (internalFormat r) (width r) (height r)
     \<and> view_bytes (bufferView r)
           = take (pf_compressedTextureSize pf (internalFormat r) (width r) (height r))
               (contents data)"
proof -
  from parseKTX_Inr [OF assms(1)] obtain t where
    v: "validateKTX pf (headerField data 1) (headerField data 2) (headerField data 3)
            (headerField data 4) (headerField data 5) (headerField data 6) (headerField data 7)
            (headerField data 8) (headerField data 9) (headerField data 10)
            (headerField data 11) t = Inr r"
    and t: "v_buffer t = contents data"
    by blast
  from validateKTX_mipmapped [OF v assms(2,3)] t
  show ?thesis by (simp add: view_bytes_def)
qed

lemma exampleKTX_parse:
  "parseKTX examplePixelFormat (ArrayBuffer exampleKTX)
     = Inr \<lparr>internalFormat = 0x83F0, width = 4, height = 4,
            bufferView = \<lparr>v_buffer = exampleKTX, v_byteOffset = 0, v_length = 8\<rparr>\<rparr>"
  by (simp add: parseKTX_def validateKTX_def examplePixelFormat_def exampleKTX_def
      exampleHeader_def exampleLevel0_def fileIdentifier_def getUint32_def u32_def
      endiannessTest_def sizeOfUint32_def new_view_def Let_def)

text \<open>
  Claim C2 asks that for a compressed format with more than one mipmap level the returned
  view has exactly the size of level 0 and holds the first bytes of the texture data. The
  size is right, the bytes are not: for a DXT1 file of 4 by 4 pixels with three levels,
  whose level 0 is the 8 bytes \<open>0x10 ... 0x17\<close> at offset 68, the view has length 8 and holds
  the first 8 bytes of the file, the start of the KTX identifier.
\<close>

theorem level0_bytes_from_file_start:
  "(\<exists>r. parseKTX examplePixelFormat (ArrayBuffer exampleKTX) = Inr r
      \<and> headerField (ArrayBuffer exampleKTX) 11 = 3
      \<and> pf_isCompressedFormat examplePixelFormat (internalFormat r)
      \<and> v_length (bufferView r)
          = pf_compressedTextureSize examplePixelFormat (internalFormat r) (width r) (height r)
      \<and> v_length (bufferView r) = 8
      \<and> view_bytes (bufferView r) = [0xAB, 0x4B, 0x54, 0x58, 0x20, 0x31, 0x31, 0xBB]
      \<and> view_bytes (bufferView r) \<noteq> exampleLevel0)
   \<and> take 8 (drop 68 exampleKTX) = exampleLevel0"
  by (simp add: exampleKTX_parse)
     (simp add: examplePixelFormat_def exampleKTX_def exampleHeader_def exampleLevel0_def
       fileIdentifier_def headerField_def u32_def view_bytes_def)

end
